theory Spec2Isabelle
  imports Main "HOL-Library.Word"
begin

unbundle bit_operations_syntax

section \<open>Bytes, hex strings and errors\<close>

text \<open>
  A \<open>Uint8Array\<close>, a \<open>Buffer\<close> and a viem \<open>Hex\<close> value (\<open>0x\<close> followed by hex digits) are all
  modelled by the byte sequence they denote.  JavaScript strings are \<open>string\<close>; a \<open>bigint\<close> is
  \<open>int\<close>.
\<close>

type_synonym byte = "8 word"
type_synonym bytes = "byte list"

text \<open>
  Every \<open>throw\<close> of the source and every rejection of a collaborator is a value.  The first
  group names the \<open>new Error(...)\<close> of the package by the spec's taxonomy; the second group are
  errors raised by the JavaScript runtime and by viem; \<open>Rejected\<close> is the rejection of an external
  call (fetch, json, a ceremony, WebCrypto).
\<close>

datatype error =
    UnsupportedMessageFormat
  | ChainIdUnavailable
  | RegistrationNotVerified
  | LoginNotVerified
  | MissingPublicKey
  | MissingAuthenticatorId
  | MalformedSignature
  | UnexpectedClientDataShape
  | InvalidPublicKeyEncoding
  | InvalidBase64
  | TypeError
  | SyntaxError
  | IntegerOutOfRange
  | SizeExceedsPaddingSize
  | AbiEncodingBytesSizeMismatch
  | Rejected string

section \<open>Big-endian integers\<close>

text \<open>The minimal big-endian bytes of a natural number (\<open>toString(16)\<close>, read bytewise).\<close>

fun bytesOfNat :: "nat \<Rightarrow> bytes" where
  "bytesOfNat n = (if n = 0 then [] else bytesOfNat (n div 256) @ [of_nat (n mod 256)])"

declare bytesOfNat.simps [simp del]

text \<open>\<open>BigInt("0x" + hex)\<close>: the value of a big-endian byte string.\<close>

definition natOfBytes :: "bytes \<Rightarrow> nat" where
  "natOfBytes bs = foldl (\<lambda>a b. a * 256 + unat b) 0 bs"

text \<open>The 32-byte big-endian word of the ABI, written in closed form.\<close>

definition uint256BE :: "int \<Rightarrow> bytes" where
  "uint256BE x = map (\<lambda>i. of_nat (nat x div 256 ^ (31 - i))) [0..<32]"

section \<open>viem\<close>

text \<open>\<open>pad(hex, {size: 32})\<close>: left padding with zeros; a longer value throws.\<close>

definition pad :: "bytes \<Rightarrow> error + bytes" where
  "pad h = (if length h > 32 then Inl SizeExceedsPaddingSize
            else Inr (replicate (32 - length h) 0 @ h))"

text \<open>\<open>pad(hex, {dir: "right"})\<close>.\<close>

definition padRight :: "bytes \<Rightarrow> error + bytes" where
  "padRight h = (if length h > 32 then Inl SizeExceedsPaddingSize
                 else Inr (h @ replicate (32 - length h) 0))"

text \<open>\<open>toHex(value, {size: 32})\<close> on a bigint, that is \<open>numberToHex\<close>.\<close>

definition toHex :: "int \<Rightarrow> error + bytes" where
  "toHex v = (if v > 2 ^ 256 - 1 \<or> v < 0 then Inl IntegerOutOfRange
              else pad (bytesOfNat (nat v)))"

definition concatHex :: "bytes list \<Rightarrow> bytes" where
  "concatHex hs = concat hs"

text \<open>\<open>stringToHex\<close>: the UTF-8 bytes of a string whose code units are below 256.\<close>

definition stringToHex :: "string \<Rightarrow> bytes" where
  "stringToHex s =
     concat (map (\<lambda>c. let n = (of_char c :: nat)
                        in if n < 128 then [of_nat n]
                           else [of_nat (192 + n div 64), of_nat (128 + n mod 64)]) s)"

subsection \<open>encodeAbiParameters\<close>

text \<open>
  A parameter of the ABI together with its value, for the types this package encodes.
  \<open>prepareParam\<close> yields viem's \<open>{dynamic, encoded}\<close> as a pair.
\<close>

datatype abiValue =
    AUint256 int
  | ABool bool
  | ABytes32 bytes
  | ABytes bytes
  | AString string
  | ATuple "abiValue list"

type_synonym preparedParam = "bool \<times> bytes"

definition staticSizeOf :: "preparedParam list \<Rightarrow> nat" where
  "staticSizeOf ps = sum_list (map (\<lambda>(dyn, enc). if dyn then 32 else length enc) ps)"

text \<open>The second loop of \<open>encodeParams\<close>: the static parts and the dynamic parts.\<close>

fun splitParams :: "nat \<Rightarrow> nat \<Rightarrow> preparedParam list \<Rightarrow> error + (bytes list \<times> bytes list)" where
  "splitParams staticSize dynamicSize [] = Inr ([], [])"
| "splitParams staticSize dynamicSize ((dyn, enc) # ps) =
     (if dyn then
        (case toHex (int (staticSize + dynamicSize)) of
           Inl e \<Rightarrow> Inl e
         | Inr off \<Rightarrow>
            (case splitParams staticSize (dynamicSize + length enc) ps of
               Inl e \<Rightarrow> Inl e
             | Inr (st, dy) \<Rightarrow> Inr (off # st, enc # dy)))
      else
        (case splitParams staticSize dynamicSize ps of
           Inl e \<Rightarrow> Inl e
         | Inr (st, dy) \<Rightarrow> Inr (enc # st, dy)))"

definition encodeParams :: "preparedParam list \<Rightarrow> error + bytes" where
  "encodeParams ps =
     (case splitParams (staticSizeOf ps) 0 ps of
        Inl e \<Rightarrow> Inl e
      | Inr (st, dy) \<Rightarrow> Inr (concatHex (st @ dy)))"

definition encodeNumber :: "int \<Rightarrow> error + preparedParam" where
  "encodeNumber v =
     (if v > 2 ^ 256 - 1 \<or> v < 0 then Inl IntegerOutOfRange
      else (case toHex v of Inl e \<Rightarrow> Inl e | Inr h \<Rightarrow> Inr (False, h)))"

definition encodeBool :: "bool \<Rightarrow> error + preparedParam" where
  "encodeBool b = (case pad [if b then 1 else 0] of Inl e \<Rightarrow> Inl e | Inr h \<Rightarrow> Inr (False, h))"

definition encodeBytes32 :: "bytes \<Rightarrow> error + preparedParam" where
  "encodeBytes32 v =
     (if length v \<noteq> 32 then Inl AbiEncodingBytesSizeMismatch
      else (case padRight v of Inl e \<Rightarrow> Inl e | Inr h \<Rightarrow> Inr (False, h)))"

text \<open>A value is padded at the end to the next multiple of 32 bytes.\<close>

definition padToWords :: "bytes \<Rightarrow> bytes" where
  "padToWords v =
     (if length v mod 32 \<noteq> 0 then v @ replicate (32 - length v mod 32) 0 else v)"

definition encodeBytes :: "bytes \<Rightarrow> error + preparedParam" where
  "encodeBytes v =
     (case toHex (int (length v)) of
        Inl e \<Rightarrow> Inl e
      | Inr len \<Rightarrow> Inr (True, concatHex [len, padToWords v]))"

definition encodeString :: "string \<Rightarrow> error + preparedParam" where
  "encodeString s =
     (let hexValue = stringToHex s
      in case toHex (int (length hexValue)) of
           Inl e \<Rightarrow> Inl e
         | Inr len \<Rightarrow> Inr (True, concatHex [len, padToWords hexValue]))"

fun prepareParam :: "abiValue \<Rightarrow> error + preparedParam"
  and prepareParams :: "abiValue list \<Rightarrow> error + preparedParam list" where
  "prepareParam (AUint256 v) = encodeNumber v"
| "prepareParam (ABool b) = encodeBool b"
| "prepareParam (ABytes32 v) = encodeBytes32 v"
| "prepareParam (ABytes v) = encodeBytes v"
| "prepareParam (AString s) = encodeString s"
| "prepareParam (ATuple vs) =
     (case prepareParams vs of
        Inl e \<Rightarrow> Inl e
      | Inr ps \<Rightarrow>
          if list_ex fst ps
          then (case encodeParams ps of Inl e \<Rightarrow> Inl e | Inr enc \<Rightarrow> Inr (True, enc))
          else Inr (False, concatHex (map snd ps)))"
| "prepareParams [] = Inr []"
| "prepareParams (v # vs) =
     (case prepareParam v of
        Inl e \<Rightarrow> Inl e
      | Inr p \<Rightarrow> (case prepareParams vs of Inl e \<Rightarrow> Inl e | Inr ps \<Rightarrow> Inr (p # ps)))"

definition encodeAbiParameters :: "abiValue list \<Rightarrow> error + bytes" where
  "encodeAbiParameters vs =
     (case prepareParams vs of Inl e \<Rightarrow> Inl e | Inr ps \<Rightarrow> encodeParams ps)"

subsection \<open>keccak256\<close>

text \<open>
  Keccak-256 as viem computes it: the Keccak-f[1600] permutation on 25 lanes of 64 bits
  (lane \<open>(x, y)\<close> at index \<open>x + 5 * y\<close>), rate 136 bytes, padding \<open>0x01 .. 0x80\<close>, 32 bytes of
  output.
\<close>

type_synonym lane = "64 word"

definition rotl :: "nat \<Rightarrow> lane \<Rightarrow> lane" where
  "rotl n w = (if n = 0 then w else push_bit n w OR drop_bit (64 - n) w)"

definition roundConstants :: "lane list" where
  "roundConstants =
    [0x0000000000000001, 0x0000000000008082, 0x800000000000808A, 0x8000000080008000,
     0x000000000000808B, 0x0000000080000001, 0x8000000080008081, 0x8000000000008009,
     0x000000000000008A, 0x0000000000000088, 0x0000000080008009, 0x000000008000000A,
     0x000000008000808B, 0x800000000000008B, 0x8000000000008089, 0x8000000000008003,
     0x8000000000008002, 0x8000000000000080, 0x000000000000800A, 0x800000008000000A,
     0x8000000080008081, 0x8000000000008080, 0x0000000080000001, 0x8000000080008008]"

definition rotationOffsets :: "nat list" where
  "rotationOffsets =
    [0, 1, 62, 28, 27,
     36, 44, 6, 55, 20,
     3, 10, 43, 25, 39,
     41, 45, 15, 21, 8,
     18, 2, 61, 56, 14]"

definition theta :: "lane list \<Rightarrow> lane list" where
  "theta a =
     (let c = map (\<lambda>x. a ! x XOR a ! (x + 5) XOR a ! (x + 10) XOR a ! (x + 15) XOR a ! (x + 20))
                [0..<5];
          d = map (\<lambda>x. c ! ((x + 4) mod 5) XOR rotl 1 (c ! ((x + 1) mod 5))) [0..<5]
      in map (\<lambda>i. a ! i XOR d ! (i mod 5)) [0..<25])"

text \<open>
  \<open>B[y, 2x + 3y] = rot(A[x, y], r[x, y])\<close>: the lane written at \<open>(x', y')\<close> comes from
  \<open>x = (x' + 3 y') mod 5\<close>, \<open>y = x'\<close>.
\<close>

definition rhoPi :: "lane list \<Rightarrow> lane list" where
  "rhoPi a =
     map (\<lambda>i. let x' = i mod 5; y' = i div 5; x = (x' + 3 * y') mod 5; y = x'
               in rotl (rotationOffsets ! (x + 5 * y)) (a ! (x + 5 * y))) [0..<25]"

definition chi :: "lane list \<Rightarrow> lane list" where
  "chi b =
     map (\<lambda>i. let x = i mod 5; y = i div 5
               in b ! i XOR (NOT (b ! ((x + 1) mod 5 + 5 * y)) AND b ! ((x + 2) mod 5 + 5 * y)))
         [0..<25]"

definition iota :: "lane \<Rightarrow> lane list \<Rightarrow> lane list" where
  "iota rc a = (a ! 0 XOR rc) # tl a"

definition keccakRound :: "lane list \<Rightarrow> lane \<Rightarrow> lane list" where
  "keccakRound a rc = iota rc (chi (rhoPi (theta a)))"

definition keccakF :: "lane list \<Rightarrow> lane list" where
  "keccakF a = foldl keccakRound a roundConstants"

text \<open>Lanes are little-endian.\<close>

definition laneOfBytes :: "bytes \<Rightarrow> lane" where
  "laneOfBytes bs = foldr (\<lambda>b acc. push_bit 8 acc OR ucast b) bs 0"

definition bytesOfLane :: "lane \<Rightarrow> bytes" where
  "bytesOfLane w = map (\<lambda>i. ucast (drop_bit (8 * i) w)) [0..<8]"

fun chunks :: "nat \<Rightarrow> 'a list \<Rightarrow> 'a list list" where
  "chunks n [] = []"
| "chunks n (x # xs) =
     (if n = 0 then [x # xs] else take n (x # xs) # chunks n (drop n (x # xs)))"

definition keccakPad :: "bytes \<Rightarrow> bytes" where
  "keccakPad m =
     (let q = 136 - length m mod 136
      in if q = 1 then m @ [0x81] else m @ [0x01] @ replicate (q - 2) 0 @ [0x80])"

definition absorb :: "lane list \<Rightarrow> bytes \<Rightarrow> lane list" where
  "absorb st block =
     keccakF (map (\<lambda>i. if i < 17 then st ! i XOR laneOfBytes (take 8 (drop (8 * i) block))
                        else st ! i) [0..<25])"

definition keccak256 :: "bytes \<Rightarrow> bytes" where
  "keccak256 m =
     take 32 (concat (map bytesOfLane (foldl absorb (replicate 25 0) (chunks 136 (keccakPad m)))))"

section \<open>JavaScript values\<close>

text \<open>
  The passkey server's responses are typed \<open>any\<close>: they are JSON values, read by property
  access and tested for truthiness.
\<close>

datatype json =
    JUndefined
  | JNull
  | JBool bool
  | JNumber int
  | JString string
  | JArray "json list"
  | JObject "(string \<times> json) list"

text \<open>\<open>v.k\<close>: a \<open>TypeError\<close> on \<open>undefined\<close> and \<open>null\<close>, \<open>undefined\<close> where the property is absent.\<close>

fun getProp :: "json \<Rightarrow> string \<Rightarrow> error + json" where
  "getProp JUndefined k = Inl TypeError"
| "getProp JNull k = Inl TypeError"
| "getProp (JObject fs) k = Inr (case map_of fs k of None \<Rightarrow> JUndefined | Some v \<Rightarrow> v)"
| "getProp v k = Inr JUndefined"

fun truthy :: "json \<Rightarrow> bool" where
  "truthy JUndefined = False"
| "truthy JNull = False"
| "truthy (JBool b) = b"
| "truthy (JNumber n) = (n \<noteq> 0)"
| "truthy (JString s) = (s \<noteq> [])"
| "truthy (JArray vs) = True"
| "truthy (JObject fs) = True"

section \<open>The data model\<close>

record WebAuthnKey =
  pubX :: int
  pubY :: int
  authenticatorId :: string
  authenticatorIdHash :: bytes

datatype WebAuthnMode = Register | Login

datatype RequestCredentials = Include | Omit | SameOrigin

text \<open>
  \<open>WebAuthnAccountParams\<close>; an optional property is an option, and the defaults of the
  destructuring (\<open>mode = Register\<close>, \<open>credentials = "include"\<close>, \<open>passkeyServerHeaders = {}\<close>)
  are applied by \<open>modeOf\<close>, \<open>credentialsOf\<close> and \<open>headersOf\<close>.
\<close>

record WebAuthnAccountParams =
  passkeyName :: "string option"
  rpID :: "string option"
  webAuthnKey :: "WebAuthnKey option"
  mode :: "WebAuthnMode option"
  credentials :: "RequestCredentials option"
  passkeyServerHeaders :: "(string \<times> string) list option"

definition modeOf :: "WebAuthnAccountParams \<Rightarrow> WebAuthnMode" where
  "modeOf p = (case mode p of None \<Rightarrow> Register | Some m \<Rightarrow> m)"

definition credentialsOf :: "WebAuthnAccountParams \<Rightarrow> RequestCredentials" where
  "credentialsOf p = (case credentials p of None \<Rightarrow> Include | Some c \<Rightarrow> c)"

text \<open>
  \<open>{ "Content-Type": "application/json", ...passkeyServerHeaders }\<close>: the spread writes the
  caller's headers over the default, so a caller's \<open>Content-Type\<close> replaces it, in its place.
  A \<open>Record\<close> lists each key once.
\<close>

definition headersOf :: "WebAuthnAccountParams \<Rightarrow> (string \<times> string) list" where
  "headersOf p =
     (case passkeyServerHeaders p of
        None \<Rightarrow> [(''Content-Type'', ''application/json'')]
      | Some hs \<Rightarrow>
          (''Content-Type'',
             (case map_of hs ''Content-Type'' of None \<Rightarrow> ''application/json'' | Some v \<Rightarrow> v)) #
          filter (\<lambda>(k, v). k \<noteq> ''Content-Type'') hs)"

text \<open>The result of \<open>startAuthentication\<close>: \<open>cred.id\<close> and the fields of \<open>cred.response\<close>.\<close>

record AuthenticationCredential =
  authId :: string
  authenticatorData :: string
  clientDataJSON :: string
  signature :: string

text \<open>The result of \<open>startRegistration\<close>: \<open>cred.id\<close> and \<open>cred.response.publicKey\<close>.\<close>

record RegistrationCredential =
  regId :: string
  publicKey :: "string option"

text \<open>The JSON body of a request to the passkey server.\<close>

datatype body =
    LoginOptionsBody "string option"
  | LoginVerifyBody AuthenticationCredential "string option"
  | RegisterOptionsBody "string option" "string option"
  | RegisterVerifyBody json "string option" RegistrationCredential "string option"

text \<open>A \<open>POST\<close>: the URL, the headers, the body, the credentials mode.\<close>

datatype request = Request string "(string \<times> string) list" body RequestCredentials

type_synonym cryptoKey = nat

text \<open>
  External calls are recorded in a trace, so that "before any ceremony is invoked" is a
  statement about the trace of a run.
\<close>

datatype event =
    Fetch request
  | StartAuthentication json
  | StartRegistration json
  | ImportKey bytes
  | ExportKey cryptoKey

type_synonym 'a eff = "event list \<times> (error + 'a)"

definition ret :: "'a \<Rightarrow> 'a eff" where
  "ret a = ([], Inr a)"

definition throw :: "error \<Rightarrow> 'a eff" where
  "throw e = ([], Inl e)"

definition lift :: "(error + 'a) \<Rightarrow> 'a eff" where
  "lift r = ([], r)"

definition call :: "event \<Rightarrow> (error + 'a) \<Rightarrow> 'a eff" where
  "call ev r = ([ev], r)"

definition andThen :: "'a eff \<Rightarrow> ('a \<Rightarrow> 'b eff) \<Rightarrow> 'b eff" where
  "andThen m f =
     (case m of
        (t, Inl e) \<Rightarrow> (t, Inl e)
      | (t, Inr a) \<Rightarrow> (case f a of (t', r) \<Rightarrow> (t @ t', r)))"

text \<open>
  The collaborators: the passkey server behind \<open>fetch\<close> and \<open>.json()\<close>, the ceremonies of
  \<open>@simplewebauthn/browser\<close>, \<open>atob\<close>, \<open>Buffer.from(_, "base64")\<close> and WebCrypto.  Each answers
  with a value or rejects.
\<close>

record platform =
  fetchJson :: "request \<Rightarrow> error + json"
  startAuthentication :: "json \<Rightarrow> error + AuthenticationCredential"
  startRegistration :: "json \<Rightarrow> error + RegistrationCredential"
  atob :: "string \<Rightarrow> error + string"
  bufferFromBase64 :: "json \<Rightarrow> error + bytes"
  importKey :: "bytes \<Rightarrow> error + cryptoKey"
  exportKey :: "cryptoKey \<Rightarrow> error + bytes"

text \<open>
  The module \<open>./utils\<close> and the module \<open>./constants\<close> are not among the sources: the functions
  and constants imported from them are parameters.
\<close>

record QuoteIndices =
  beforeType :: int

record utils =
  b64ToBytes :: "string \<Rightarrow> error + bytes"
  base64FromUint8Array :: "bytes \<Rightarrow> bool \<Rightarrow> string"
  findQuoteIndices :: "string \<Rightarrow> error + QuoteIndices"
  hexStringToUint8Array :: "string \<Rightarrow> error + bytes"
  isRIP7212SupportedNetwork :: "int \<Rightarrow> bool"
  parseAndNormalizeSig :: "bytes \<Rightarrow> error + (int \<times> int)"
  uint8ArrayToHexString :: "bytes \<Rightarrow> bytes"

record constants =
  DEFAULT_PASSKEY_SERVER_URL :: string
  PASSKEY_VALIDATOR_ADDRESS :: bytes

section \<open>toWebAuthnKey.ts\<close>

definition encodeWebAuthnPubKey :: "WebAuthnKey \<Rightarrow> error + bytes" where
  "encodeWebAuthnPubKey pubKey =
     (case toHex (pubX pubKey) of
        Inl e \<Rightarrow> Inl e
      | Inr hx \<Rightarrow>
         (case toHex (pubY pubKey) of
            Inl e \<Rightarrow> Inl e
          | Inr hy \<Rightarrow>
             (case pad (authenticatorIdHash pubKey) of
                Inl e \<Rightarrow> Inl e
              | Inr hh \<Rightarrow> Inr (concatHex [hx, hy, hh]))))"

definition post :: "constants \<Rightarrow> WebAuthnAccountParams \<Rightarrow> string \<Rightarrow> body \<Rightarrow> request" where
  "post cs p path b =
     Request (DEFAULT_PASSKEY_SERVER_URL cs @ path) (headersOf p) b (credentialsOf p)"

text \<open>
  The login branch (lines 102 to 142): the public key as the server returned it, and the id of
  the credential.
\<close>

definition loginFlow ::
  "constants \<Rightarrow> platform \<Rightarrow> WebAuthnAccountParams \<Rightarrow> (json \<times> string) eff" where
  "loginFlow cs pf p =
     (let optionsRequest = post cs p ''/login/options'' (LoginOptionsBody (rpID p))
      in andThen (call (Fetch optionsRequest) (fetchJson pf optionsRequest)) (\<lambda>loginOptions.
         andThen (call (StartAuthentication loginOptions) (startAuthentication pf loginOptions))
           (\<lambda>loginCred.
         let verifyRequest = post cs p ''/login/verify'' (LoginVerifyBody loginCred (rpID p))
         in andThen (call (Fetch verifyRequest) (fetchJson pf verifyRequest)) (\<lambda>loginVerifyResult.
            andThen (lift (getProp loginVerifyResult ''verification'')) (\<lambda>verification.
            andThen (lift (getProp verification ''verified'')) (\<lambda>verified.
            if \<not> truthy verified then throw LoginNotVerified
            else andThen (lift (getProp loginVerifyResult ''pubkey'')) (\<lambda>pubKey.
                 ret (pubKey, authId loginCred))))))))"

text \<open>The registration branch (lines 144 to 189).\<close>

definition registerFlow ::
  "constants \<Rightarrow> platform \<Rightarrow> WebAuthnAccountParams \<Rightarrow> (json \<times> string) eff" where
  "registerFlow cs pf p =
     (let optionsRequest =
            post cs p ''/register/options'' (RegisterOptionsBody (passkeyName p) (rpID p))
      in andThen (call (Fetch optionsRequest) (fetchJson pf optionsRequest)) (\<lambda>registerOptions.
         andThen (lift (getProp registerOptions ''options'')) (\<lambda>creationOptions.
         andThen (call (StartRegistration creationOptions) (startRegistration pf creationOptions))
           (\<lambda>registerCred.
         andThen (lift (getProp registerOptions ''userId'')) (\<lambda>userId.
         let verifyRequest =
               post cs p ''/register/verify''
                 (RegisterVerifyBody userId (passkeyName p) registerCred (rpID p))
         in andThen (call (Fetch verifyRequest) (fetchJson pf verifyRequest))
              (\<lambda>registerVerifyResult.
            andThen (lift (getProp registerVerifyResult ''verified'')) (\<lambda>verified.
            if \<not> truthy verified then throw RegistrationNotVerified
            else ret (case publicKey registerCred of None \<Rightarrow> JUndefined | Some k \<Rightarrow> JString k,
                      regId registerCred))))))))"

text \<open>\<open>BigInt("0x" + buffer.toString("hex"))\<close>; \<open>BigInt("0x")\<close> is a \<open>SyntaxError\<close>.\<close>

definition bigIntOfHex :: "bytes \<Rightarrow> error + int" where
  "bigIntOfHex bs = (if bs = [] then Inl SyntaxError else Inr (int (natOfBytes bs)))"

text \<open>
  Lines 199 to 227: the hash of the credential id and the coordinates of the public key.
  \<open>subarray(1, 33)\<close> and \<open>subarray(33)\<close> clamp to the buffer, as \<open>take\<close> and \<open>drop\<close> do.
\<close>

definition deriveKey ::
  "platform \<Rightarrow> utils \<Rightarrow> json \<Rightarrow> string \<Rightarrow> WebAuthnKey eff" where
  "deriveKey pf u pubKey authenticatorId' =
     andThen (lift (b64ToBytes u authenticatorId')) (\<lambda>idBytes.
     let authenticatorIdHash' = keccak256 (uint8ArrayToHexString u idBytes)
     in andThen (lift (bufferFromBase64 pf pubKey)) (\<lambda>spkiDer.
        andThen (call (ImportKey spkiDer) (importKey pf spkiDer)) (\<lambda>key.
        andThen (call (ExportKey key) (exportKey pf key)) (\<lambda>rawKeyBuffer.
        andThen (lift (bigIntOfHex (take 32 (drop 1 rawKeyBuffer)))) (\<lambda>x.
        andThen (lift (bigIntOfHex (drop 33 rawKeyBuffer))) (\<lambda>y.
        ret \<lparr> pubX = x, pubY = y, authenticatorId = authenticatorId',
              authenticatorIdHash = authenticatorIdHash' \<rparr>))))))"

definition toWebAuthnKey ::
  "constants \<Rightarrow> platform \<Rightarrow> utils \<Rightarrow> WebAuthnAccountParams \<Rightarrow> WebAuthnKey eff" where
  "toWebAuthnKey cs pf u p =
     (case webAuthnKey p of
        Some k \<Rightarrow> ret k
      | None \<Rightarrow>
          andThen (if modeOf p = Login then loginFlow cs pf p else registerFlow cs pf p)
            (\<lambda>(pubKey, authenticatorId').
               if \<not> truthy pubKey then throw MissingPublicKey
               else if authenticatorId' = [] then throw MissingAuthenticatorId
               else deriveKey pf u pubKey authenticatorId'))"

section \<open>toPasskeyValidator.ts\<close>

text \<open>
  The value of \<open>message.raw\<close>: a hex string (the source tests \<open>typeof message.raw === "string"\<close>),
  a byte array, or anything else.  The values of \<open>message\<close> at run time: a string, an object
  (with or without a \<open>raw\<close> property), or a value that is neither, which the declared type
  \<open>SignableMessage\<close> excludes and on which the \<open>in\<close> operator of line 39 throws.
\<close>

datatype rawValue = RawHex string | RawByteArray bytes | RawOther

datatype message = MString string | MObject "rawValue option" | MPrimitive

fun showNat :: "nat \<Rightarrow> string" where
  "showNat n =
     (if n < 10 then [char_of (48 + n)] else showNat (n div 10) @ [char_of (48 + n mod 10)])"

declare showNat.simps [simp del]

fun joinComma :: "string list \<Rightarrow> string" where
  "joinComma [] = []"
| "joinComma [x] = x"
| "joinComma (x # y # ys) = x @ '','' @ joinComma (y # ys)"

text \<open>\<open>Uint8Array.prototype.toString\<close>: the decimal bytes, joined by commas.\<close>

definition uint8ArrayToString :: "bytes \<Rightarrow> string" where
  "uint8ArrayToString bs = joinComma (map (\<lambda>b. showNat (unat b)) bs)"

text \<open>Lines 35 to 47 of \<open>signMessageUsingWebAuthn\<close>.\<close>

fun messageContentOf :: "message \<Rightarrow> error + string" where
  "messageContentOf (MString m) = Inr m"
| "messageContentOf MPrimitive = Inl TypeError"
| "messageContentOf (MObject (Some (RawHex raw))) = Inr raw"
| "messageContentOf (MObject (Some (RawByteArray raw))) = Inr (uint8ArrayToString raw)"
| "messageContentOf (MObject _) = Inl UnsupportedMessageFormat"

definition assertionOptionsOf :: "string \<Rightarrow> string list option \<Rightarrow> json" where
  "assertionOptionsOf challenge allowCredentials =
     JObject
       [(''challenge'', JString challenge),
        (''allowCredentials'',
           (case allowCredentials of
              None \<Rightarrow> JUndefined
            | Some ids \<Rightarrow>
                JArray (map (\<lambda>i. JObject [(''id'', JString i), (''type'', JString ''public-key'')])
                          ids))),
        (''userVerification'', JString ''required'')]"

definition signMessageUsingWebAuthn ::
  "platform \<Rightarrow> utils \<Rightarrow> message \<Rightarrow> int \<Rightarrow> string list option \<Rightarrow> bytes eff" where
  "signMessageUsingWebAuthn pf u message chainId allowCredentials =
     andThen (lift (messageContentOf message)) (\<lambda>messageContent.
     let formattedMessage =
           (if take 2 messageContent = ''0x'' then drop 2 messageContent else messageContent)
     in andThen (lift (hexStringToUint8Array u formattedMessage)) (\<lambda>messageBytes.
        let assertionOptions =
              assertionOptionsOf (base64FromUint8Array u messageBytes True) allowCredentials
        in andThen (call (StartAuthentication assertionOptions)
                      (startAuthentication pf assertionOptions)) (\<lambda>cred.
           andThen (lift (b64ToBytes u (authenticatorData cred))) (\<lambda>authenticatorDataBytes.
           let authenticatorDataHex = uint8ArrayToHexString u authenticatorDataBytes
           in andThen (lift (atob pf (clientDataJSON cred))) (\<lambda>clientDataJSON'.
              andThen (lift (findQuoteIndices u clientDataJSON')) (\<lambda>indices.
              andThen (lift (b64ToBytes u (signature cred))) (\<lambda>signatureBytes.
              andThen (lift (parseAndNormalizeSig u (uint8ArrayToHexString u signatureBytes)))
                (\<lambda>(r, s).
              lift (encodeAbiParameters
                      [ABytes authenticatorDataHex,
                       AString clientDataJSON',
                       AUint256 (beforeType indices),
                       AUint256 r,
                       AUint256 s,
                       ABool (isRIP7212SupportedNetwork u chainId)])))))))))"

record Chain =
  chainId :: int

record Client =
  chain :: "Chain option"

record NexusAccount =
  signer :: string
  address :: bytes
  client :: "Client option"

text \<open>The \<open>signUserOpHash\<close> callback of the module, closed over \<open>webAuthnKey\<close> and \<open>account\<close>.\<close>

definition signUserOpHash ::
  "platform \<Rightarrow> utils \<Rightarrow> WebAuthnKey \<Rightarrow> NexusAccount \<Rightarrow> string \<Rightarrow> bytes eff" where
  "signUserOpHash pf u key account userOpHash =
     (case client account of
        None \<Rightarrow> throw ChainIdUnavailable
      | Some c \<Rightarrow>
         (case chain c of
            None \<Rightarrow> throw ChainIdUnavailable
          | Some ch \<Rightarrow>
              signMessageUsingWebAuthn pf u (MString userOpHash) (chainId ch)
                (Some [authenticatorId key])))"

definition dq :: char where
  "dq = CHR 0x22"

definition stubClientDataJSON :: string where
  "stubClientDataJSON =
     ''{'' @ [dq] @ ''type'' @ [dq] @ '':'' @ [dq] @ ''webauthn.get'' @ [dq] @ '','' @
     [dq] @ ''challenge'' @ [dq] @ '':'' @ [dq] @
     ''tbxXNFS9X_4Byr1cMwqKrIGB-_30a0QhZ6y7ucM0BOE'' @ [dq] @ '','' @
     [dq] @ ''origin'' @ [dq] @ '':'' @ [dq] @ ''http://localhost:3000'' @ [dq] @ '','' @
     [dq] @ ''crossOrigin'' @ [dq] @ '':false, '' @
     [dq] @ ''other_keys_can_be_added_here'' @ [dq] @ '':'' @ [dq] @
     ''do not compare clientDataJSON against a template. See https://goo.gl/yabPex'' @
     [dq] @ ''}''"

definition stubAuthenticatorData :: bytes where
  "stubAuthenticatorData =
     [0x49, 0x96, 0x0d, 0xe5, 0x88, 0x0e, 0x8c, 0x68, 0x74, 0x34, 0x17, 0x0f, 0x64, 0x76,
      0x60, 0x5b, 0x8f, 0xe4, 0xae, 0xb9, 0xa2, 0x86, 0x32, 0xc7, 0x99, 0x5c, 0xf3, 0xba,
      0x83, 0x1d, 0x97, 0x63, 0x1d, 0x00, 0x00, 0x00, 0x00]"

definition getStubSignature :: "error + bytes" where
  "getStubSignature =
     encodeAbiParameters
       [ABytes stubAuthenticatorData,
        AString stubClientDataJSON,
        AUint256 1,
        AUint256 44941127272049826721201904734628716258498742255959991581049806490182030242267,
        AUint256 9910254599581058084911561569808925251374718953855182016200087235935345969636,
        ABool False]"

record ModuleInitData =
  mi_initData :: bytes
  mi_address :: bytes
  mi_type :: string

text \<open>
  The argument of \<open>toModule\<close>, without its two callbacks (\<open>signUserOpHash\<close> and
  \<open>getStubSignature\<close> above).
\<close>

record Module =
  m_signer :: string
  m_address :: bytes
  m_accountAddress :: bytes
  m_initData :: bytes
  m_moduleInitData :: ModuleInitData
  m_deInitData :: bytes

text \<open>The properties of the object literal are evaluated in their order: a throw of the first
  \<open>encodeAbiParameters\<close> rejects the promise before the second is called.\<close>

definition toPasskeyValidator :: "constants \<Rightarrow> WebAuthnKey \<Rightarrow> NexusAccount \<Rightarrow> error + Module" where
  "toPasskeyValidator cs key account =
     (case encodeAbiParameters
             [ATuple [AUint256 (pubX key), AUint256 (pubY key)],
              ABytes32 (authenticatorIdHash key)] of
        Inl e \<Rightarrow> Inl e
      | Inr initData \<Rightarrow>
         (case encodeAbiParameters
                 [ATuple [AUint256 (pubX key), AUint256 (pubY key)],
                  ABytes32 (authenticatorIdHash key)] of
            Inl e \<Rightarrow> Inl e
          | Inr initData' \<Rightarrow>
              Inr \<lparr> m_signer = signer account,
                    m_address = PASSKEY_VALIDATOR_ADDRESS cs,
                    m_accountAddress = address account,
                    m_initData = initData,
                    m_moduleInitData =
                      \<lparr> mi_initData = initData',
                        mi_address = PASSKEY_VALIDATOR_ADDRESS cs,
                        mi_type = ''validator'' \<rparr>,
                    m_deInitData = [] \<rparr>))"

section \<open>The functions of ./utils, from the specification\<close>

text \<open>
  Modelled from the spec: \<open>b64ToBytes\<close> of \<open>./utils\<close>, which is not among the sources.  The
  spec's data model calls its result "the raw bytes decoded from the base64url
  \<open>authenticatorId\<close>": unpadded base64url (alphabet \<open>A-Z a-z 0-9 - _\<close>), six bits a character,
  most significant first; a character outside the alphabet or a lone trailing character is
  an error.
\<close>

definition b64Digit :: "char \<Rightarrow> nat option" where
  "b64Digit c =
     (let n = (of_char c :: nat)
      in if 65 \<le> n \<and> n \<le> 90 then Some (n - 65)
         else if 97 \<le> n \<and> n \<le> 122 then Some (n - 71)
         else if 48 \<le> n \<and> n \<le> 57 then Some (n + 4)
         else if n = 45 then Some 62
         else if n = 95 then Some 63
         else None)"

fun b64Groups :: "nat list \<Rightarrow> bytes option" where
  "b64Groups [] = Some []"
| "b64Groups [a] = None"
| "b64Groups [a, b] = Some [of_nat ((a * 64 + b) div 16)]"
| "b64Groups [a, b, c] =
     (let v = (a * 64 + b) * 64 + c in Some [of_nat (v div 1024), of_nat (v div 4)])"
| "b64Groups (a # b # c # d # rest) =
     (let v = ((a * 64 + b) * 64 + c) * 64 + d
      in map_option (\<lambda>r. [of_nat (v div 65536), of_nat (v div 256), of_nat v] @ r)
           (b64Groups rest))"

definition b64ToBytesSpec :: "string \<Rightarrow> error + bytes" where
  "b64ToBytesSpec s =
     (case those (map b64Digit s) of
        None \<Rightarrow> Inl InvalidBase64
      | Some ds \<Rightarrow> (case b64Groups ds of None \<Rightarrow> Inl InvalidBase64 | Some bs \<Rightarrow> Inr bs))"

text \<open>
  Modelled from the spec: \<open>parseAndNormalizeSig\<close> of \<open>./utils\<close>, which is not among the sources
  (section 4.1, the Signature Normalizer).  The input is a DER sequence of two integers, read
  as unsigned; a wrong tag byte or a length that does not fit is \<open>MalformedSignature\<close>; \<open>s\<close> is
  replaced by \<open>curveOrder - s\<close> whenever \<open>s > curveOrder / 2\<close>; the curve order is that of
  NIST P-256.
\<close>

definition curveOrder :: int where
  "curveOrder = 0xFFFFFFFF00000000FFFFFFFFFFFFFFFFBCE6FAADA7179E84F3B9CAC2FC632551"

fun derInteger :: "bytes \<Rightarrow> error + (int \<times> bytes)" where
  "derInteger (tag # len # rest) =
     (if tag \<noteq> 0x02 then Inl MalformedSignature
      else if unat len = 0 \<or> 128 \<le> unat len \<or> length rest < unat len
           then Inl MalformedSignature
      else Inr (int (natOfBytes (take (unat len) rest)), drop (unat len) rest))"
| "derInteger _ = Inl MalformedSignature"

fun parseDer :: "bytes \<Rightarrow> error + (int \<times> int)" where
  "parseDer (tag # len # content) =
     (if tag \<noteq> 0x30 \<or> 128 \<le> unat len \<or> unat len \<noteq> length content
      then Inl MalformedSignature
      else (case derInteger content of
              Inl e \<Rightarrow> Inl e
            | Inr (r, rest) \<Rightarrow>
               (case derInteger rest of
                  Inl e \<Rightarrow> Inl e
                | Inr (s, rest') \<Rightarrow>
                    if rest' \<noteq> [] then Inl MalformedSignature else Inr (r, s))))"
| "parseDer _ = Inl MalformedSignature"

definition parseAndNormalizeSigSpec :: "bytes \<Rightarrow> error + (int \<times> int)" where
  "parseAndNormalizeSigSpec derSig =
     (case parseDer derSig of
        Inl e \<Rightarrow> Inl e
      | Inr (r, s) \<Rightarrow> Inr (r, if s > curveOrder div 2 then curveOrder - s else s))"

text \<open>
  Modelled from the spec: \<open>isRIP7212SupportedNetwork\<close> of \<open>./utils\<close>, which is not among the
  sources.  The spec calls it membership in "a fixed allow-list of chain ids" and does not
  give the list, which is a parameter here.
\<close>

definition isRIP7212SupportedNetworkSpec :: "int list \<Rightarrow> int \<Rightarrow> bool" where
  "isRIP7212SupportedNetworkSpec allowList chainId' = (chainId' \<in> set allowList)"

section \<open>The encodings in the words of the specification\<close>

definition uint256 :: "int \<Rightarrow> bool" where
  "uint256 v = (0 \<le> v \<and> v < 2 ^ 256)"

text \<open>
  The init payload as the specification writes it,
  \<open>abi.encode((uint256 x, uint256 y), bytes32 authenticatorIdHash)\<close>: three words of 32 bytes.
\<close>

definition abiEncodeInit :: "int \<Rightarrow> int \<Rightarrow> bytes \<Rightarrow> bytes" where
  "abiEncodeInit x y h = uint256BE x @ uint256BE y @ h"

text \<open>
  The head of the encoded signature has six words of 32 bytes; \<open>usePrecompiled\<close> is the sixth.
  A \<open>bool\<close> of the ABI is the word 0 or 1.
\<close>

definition usePrecompiledWord :: "bytes \<Rightarrow> bytes" where
  "usePrecompiledWord sig = take 32 (drop 160 sig)"

definition abiBool :: "bool \<Rightarrow> bytes" where
  "abiBool b = replicate 31 0 @ [if b then 1 else 0]"

section \<open>A concrete run\<close>

text \<open>
  A passkey server, a platform and a set of helper functions that the properties below are
  evaluated on.  The server answers every request; \<open>v\<close> is what it reports as verified.
\<close>

definition demoServer :: "bool \<Rightarrow> request \<Rightarrow> error + json" where
  "demoServer v req =
     (case req of
        Request url hs (LoginOptionsBody rp) cr \<Rightarrow>
          Inr (JObject [(''challenge'', JString ''Y2hhbGxlbmdl'')])
      | Request url hs (LoginVerifyBody cred rp) cr \<Rightarrow>
          Inr (JObject [(''verification'', JObject [(''verified'', JBool v)]),
                        (''pubkey'', JString ''c3BraQ'')])
      | Request url hs (RegisterOptionsBody name rp) cr \<Rightarrow>
          Inr (JObject [(''options'', JObject [(''challenge'', JString ''Y2hhbGxlbmdl'')]),
                        (''userId'', JString ''user-1'')])
      | Request url hs (RegisterVerifyBody uid name cred rp) cr \<Rightarrow>
          Inr (JObject [(''verified'', JBool v)]))"

definition demoPointX :: bytes where
  "demoPointX =
     [0, 0, 0, 0, 0, 0, 0, 0, 0, 0, 0, 0, 0, 0, 0, 0,
      0, 0, 0, 0, 0, 0, 0, 0, 0, 0, 0, 0, 0, 0, 0, 7]"

definition demoPointY :: bytes where
  "demoPointY =
     [1, 0, 0, 0, 0, 0, 0, 0, 0, 0, 0, 0, 0, 0, 0, 0,
      0, 0, 0, 0, 0, 0, 0, 0, 0, 0, 0, 0, 0, 0, 0, 0]"

text \<open>A raw uncompressed point: \<open>0x04\<close>, then \<open>X\<close>, then \<open>Y\<close>.\<close>

definition demoRawKey :: bytes where
  "demoRawKey = [0x04] @ demoPointX @ demoPointY"

definition demoClientData :: string where
  "demoClientData =
     ''{'' @ [dq] @ ''type'' @ [dq] @ '':'' @ [dq] @ ''webauthn.get'' @ [dq] @ '','' @
     [dq] @ ''challenge'' @ [dq] @ '':'' @ [dq] @ ''AA'' @ [dq] @ ''}''"

definition demoPlatform :: "bool \<Rightarrow> platform" where
  "demoPlatform v =
     \<lparr> fetchJson = demoServer v,
       startAuthentication =
         (\<lambda>opts. Inr \<lparr> authId = ''AQIDBA'', authenticatorData = ''AQID'',
                       clientDataJSON = ''e30'', signature = ''MAYCAQUCAQc'' \<rparr>),
       startRegistration =
         (\<lambda>opts. Inr \<lparr> regId = ''AQIDBA'', publicKey = Some ''c3BraQ'' \<rparr>),
       atob = (\<lambda>b. Inr demoClientData),
       bufferFromBase64 = (\<lambda>j. case j of JString b \<Rightarrow> Inr [0x30] | _ \<Rightarrow> Inl TypeError),
       importKey = (\<lambda>der. Inr 0),
       exportKey = (\<lambda>k. Inr demoRawKey) \<rparr>"

definition demoUtils :: "int list \<Rightarrow> utils" where
  "demoUtils allowList =
     \<lparr> b64ToBytes = b64ToBytesSpec,
       base64FromUint8Array = (\<lambda>bs urlSafe. ''AA''),
       findQuoteIndices = (\<lambda>input. Inr \<lparr> beforeType = 1 \<rparr>),
       hexStringToUint8Array = (\<lambda>h. Inr [0]),
       isRIP7212SupportedNetwork = isRIP7212SupportedNetworkSpec allowList,
       parseAndNormalizeSig = parseAndNormalizeSigSpec,
       uint8ArrayToHexString = (\<lambda>bs. bs) \<rparr>"

definition demoConstants :: constants where
  "demoConstants =
     \<lparr> DEFAULT_PASSKEY_SERVER_URL = ''https://passkeys.example'',
       PASSKEY_VALIDATOR_ADDRESS = replicate 20 0xD9 \<rparr>"

definition demoKey :: WebAuthnKey where
  "demoKey =
     \<lparr> pubX = 7, pubY = 2 ^ 248, authenticatorId = ''AQIDBA'',
       authenticatorIdHash = keccak256 [1, 2, 3, 4] \<rparr>"

definition oversizedKey :: WebAuthnKey where
  "oversizedKey =
     \<lparr> pubX = 2 ^ 256, pubY = 7, authenticatorId = ''AQIDBA'',
       authenticatorIdHash = replicate 32 0 \<rparr>"

definition demoAccount :: "int option \<Rightarrow> NexusAccount" where
  "demoAccount cid =
     \<lparr> signer = ''eoa'', address = replicate 20 0xAC,
       client = Some \<lparr> chain = map_option (\<lambda>i. \<lparr> chainId = i \<rparr>) cid \<rparr> \<rparr>"

definition registerParams :: WebAuthnAccountParams where
  "registerParams =
     \<lparr> passkeyName = Some ''nexus'', rpID = None, webAuthnKey = None, mode = Some Register,
       credentials = None, passkeyServerHeaders = None \<rparr>"

text \<open>The requests and values of a registration against \<open>demoServer\<close>.\<close>

definition demoOptionsRequest :: request where
  "demoOptionsRequest =
     Request ''https://passkeys.example/register/options''
       [(''Content-Type'', ''application/json'')]
       (RegisterOptionsBody (Some ''nexus'') None) Include"

definition demoCredential :: RegistrationCredential where
  "demoCredential = \<lparr> regId = ''AQIDBA'', publicKey = Some ''c3BraQ'' \<rparr>"

definition demoVerifyRequest :: request where
  "demoVerifyRequest =
     Request ''https://passkeys.example/register/verify''
       [(''Content-Type'', ''application/json'')]
       (RegisterVerifyBody (JString ''user-1'') (Some ''nexus'') demoCredential None) Include"

definition demoCreationOptions :: json where
  "demoCreationOptions = JObject [(''challenge'', JString ''Y2hhbGxlbmdl'')]"

text \<open>A key a caller may pass in: its hash is not a digest at all.\<close>

definition forgedKey :: WebAuthnKey where
  "forgedKey =
     \<lparr> pubX = 7, pubY = 2 ^ 248, authenticatorId = ''AQIDBA'', authenticatorIdHash = [] \<rparr>"

text \<open>The external calls of the public-key derivation.\<close>

definition isDerivation :: "event \<Rightarrow> bool" where
  "isDerivation ev = (case ev of ImportKey der \<Rightarrow> True | ExportKey key \<Rightarrow> True | _ \<Rightarrow> False)"

text \<open>Two DER signatures: \<open>(r, s) = (5, 7)\<close>, and \<open>r = 5\<close> with \<open>s\<close> the curve order less one.\<close>

definition lowSSignature :: bytes where
  "lowSSignature = [0x30, 0x06, 0x02, 0x01, 0x05, 0x02, 0x01, 0x07]"

definition highSSignature :: bytes where
  "highSSignature =
     [0x30, 0x26, 0x02, 0x01, 0x05, 0x02, 0x21, 0x00,
      0xFF, 0xFF, 0xFF, 0xFF, 0x00, 0x00, 0x00, 0x00, 0xFF, 0xFF, 0xFF, 0xFF, 0xFF, 0xFF, 0xFF, 0xFF,
      0xBC, 0xE6, 0xFA, 0xAD, 0xA7, 0x17, 0x9E, 0x84, 0xF3, 0xB9, 0xCA, 0xC2, 0xFC, 0x63, 0x25, 0x50]"


section \<open>Properties\<close>

subsection \<open>Effects\<close>

lemma andThen_throw: "andThen (throw e) f = throw e"
  by (simp add: andThen_def throw_def)

lemma andThen_lift_Inl: "andThen (lift (Inl e)) f = throw e"
  by (simp add: andThen_def throw_def lift_def)

lemma andThen_lift_Inr: "andThen (lift (Inr a)) f = f a"
  by (cases "f a") (simp add: andThen_def lift_def)

lemma andThen_ret: "andThen (ret a) f = f a"
  by (cases "f a") (simp add: andThen_def ret_def)

lemma andThen_call_Inl: "andThen (call ev (Inl e)) f = ([ev], Inl e)"
  by (simp add: andThen_def call_def)

lemma andThen_call_Inr: "andThen (call ev (Inr a)) f = (ev # fst (f a), snd (f a))"
  by (cases "f a") (simp add: andThen_def call_def)

lemmas eff_simps =
  andThen_throw andThen_lift_Inl andThen_lift_Inr andThen_ret andThen_call_Inl andThen_call_Inr

subsection \<open>The headers of a request\<close>

lemma headersOf_default:
  "headersOf (p \<lparr> passkeyServerHeaders := None \<rparr>) = [(''Content-Type'', ''application/json'')]"
  by (simp add: headersOf_def)

lemma headersOf_override:
  "headersOf (p \<lparr> passkeyServerHeaders :=
      Some [(''x-api-key'', ''k''), (''Content-Type'', ''text/plain'')] \<rparr>)
   = [(''Content-Type'', ''text/plain''), (''x-api-key'', ''k'')]"
  by (simp add: headersOf_def)

subsection \<open>Big-endian words\<close>

lemma of_nat_mod_256: "(of_nat (n mod 256) :: byte) = of_nat n"
  by (simp add: word_of_nat_eq_iff take_bit_eq_mod)

lemma bytesOfNat_0: "bytesOfNat 0 = []"
  by (simp add: bytesOfNat.simps)

lemma bytesOfNat_pos: "0 < n \<Longrightarrow> bytesOfNat n = bytesOfNat (n div 256) @ [of_nat n]"
  by (subst bytesOfNat.simps) (simp add: of_nat_mod_256)

lemma bytesOfNat_closed:
  "n < 256 ^ k \<Longrightarrow>
   length (bytesOfNat n) \<le> k \<and>
   replicate (k - length (bytesOfNat n)) 0 @ bytesOfNat n =
     map (\<lambda>i. of_nat (n div 256 ^ (k - 1 - i))) [0..<k]"
proof (induction k arbitrary: n)
  case 0
  then show ?case by (simp add: bytesOfNat_0)
next
  case (Suc k)
  show ?case
  proof (cases "n = 0")
    case True
    then show ?thesis by (simp add: bytesOfNat_0 map_replicate_const)
  next
    case False
    then have pos: "0 < n" by simp
    from Suc.prems have "n div 256 < 256 ^ k" by (simp add: less_mult_imp_div_less mult.commute)
    from Suc.IH [OF this] have len: "length (bytesOfNat (n div 256)) \<le> k"
      and eq: "replicate (k - length (bytesOfNat (n div 256))) 0 @ bytesOfNat (n div 256) =
        map (\<lambda>i. of_nat (n div 256 div 256 ^ (k - 1 - i))) [0..<k]" by simp_all
    have step: "\<And>i. i < k \<Longrightarrow> n div 256 ^ (Suc k - 1 - i) = n div 256 div 256 ^ (k - 1 - i)"
    proof -
      fix i assume "i < k"
      then have "Suc k - 1 - i = Suc (k - 1 - i)" by simp
      then show "n div 256 ^ (Suc k - 1 - i) = n div 256 div 256 ^ (k - 1 - i)"
        by (simp add: div_mult2_eq)
    qed
    have "map (\<lambda>i. (of_nat (n div 256 ^ (Suc k - 1 - i)) :: byte)) [0..<Suc k] =
          map (\<lambda>i. of_nat (n div 256 div 256 ^ (k - 1 - i))) [0..<k] @ [of_nat n]"
      using step by simp
    with len eq pos show ?thesis
      by (simp add: bytesOfNat_pos Suc_diff_le)
  qed
qed

lemma length_uint256BE: "length (uint256BE v) = 32"
  by (simp add: uint256BE_def)

lemma toHex_uint256BE:
  assumes "0 \<le> v" "v < 2 ^ 256"
  shows "toHex v = Inr (uint256BE v)"
proof -
  have "nat v < 256 ^ 32" using assms by (simp add: nat_less_iff)
  from bytesOfNat_closed [OF this] show ?thesis
    using assms by (simp add: toHex_def pad_def uint256BE_def)
qed

lemma toHex_out_of_range: "v < 0 \<or> 2 ^ 256 \<le> v \<Longrightarrow> toHex v = Inl IntegerOutOfRange"
  by (auto simp: toHex_def)

lemma toHex_length: "toHex v = Inr h \<Longrightarrow> length h = 32"
  by (auto simp: toHex_def pad_def split: if_splits)

lemma natOfBytes_snoc: "natOfBytes (bs @ [b]) = natOfBytes bs * 256 + unat b"
  by (simp add: natOfBytes_def)

lemma natOfBytes_Nil: "natOfBytes [] = 0"
  by (simp add: natOfBytes_def)

lemma byte_times_256: "(w * 256 :: byte) = 0"
proof -
  have "(256 :: byte) = 0" by simp
  then show ?thesis by (simp only: mult_zero_right)
qed

lemma closed_form_natOfBytes:
  "map (\<lambda>i. of_nat (natOfBytes bs div 256 ^ (length bs - 1 - i))) [0..<length bs] = bs"
proof (induction bs rule: rev_induct)
  case Nil
  then show ?case by simp
next
  case (snoc b bs)
  have lt: "unat b < 256" using unsigned_less [of b, where ?'a = nat] by simp
  have step: "\<And>i. i < length bs \<Longrightarrow>
      (natOfBytes bs * 256 + unat b) div 256 ^ (length bs - i) =
      natOfBytes bs div 256 ^ (length bs - 1 - i)"
  proof -
    fix i assume "i < length bs"
    then have e: "length bs - i = Suc (length bs - 1 - i)" by simp
    have "(natOfBytes bs * 256 + unat b) div 256 = natOfBytes bs" using lt by simp
    then show "(natOfBytes bs * 256 + unat b) div 256 ^ (length bs - i) =
      natOfBytes bs div 256 ^ (length bs - 1 - i)"
      by (simp add: e div_mult2_eq)
  qed
  have "map (\<lambda>i. (of_nat (natOfBytes (bs @ [b]) div 256 ^ (length (bs @ [b]) - 1 - i)) :: byte))
          [0..<length (bs @ [b])] =
        map (\<lambda>i. of_nat (natOfBytes bs div 256 ^ (length bs - 1 - i))) [0..<length bs] @ [b]"
    using step by (simp add: natOfBytes_snoc byte_times_256)
  with snoc.IH show ?case by simp
qed

lemma uint256BE_natOfBytes: "length bs = 32 \<Longrightarrow> uint256BE (int (natOfBytes bs)) = bs"
  using closed_form_natOfBytes [of bs] by (simp add: uint256BE_def)

lemma natOfBytes_replicate0: "natOfBytes (replicate k 0 @ bs) = natOfBytes bs"
proof -
  have "foldl (\<lambda>a b. a * 256 + unat b) 0 (replicate k (0 :: byte)) = 0"
    by (induction k) simp_all
  then show ?thesis by (simp add: natOfBytes_def)
qed

lemma natOfBytes_bytesOfNat: "natOfBytes (bytesOfNat n) = n"
proof (induction n rule: bytesOfNat.induct)
  case (1 n)
  show ?case
  proof (cases "n = 0")
    case True
    then show ?thesis by (simp add: bytesOfNat_0 natOfBytes_Nil)
  next
    case False
    have "unat (of_nat n :: byte) = n mod 256"
      by (simp add: unat_of_nat)
    with False 1 show ?thesis
      by (simp add: bytesOfNat_pos natOfBytes_snoc)
  qed
qed

lemma natOfBytes_uint256BE: "uint256 v \<Longrightarrow> int (natOfBytes (uint256BE v)) = v"
proof -
  assume a: "uint256 v"
  then have "nat v < 256 ^ 32" by (simp add: uint256_def nat_less_iff)
  from bytesOfNat_closed [OF this]
  have "uint256BE v = replicate (32 - length (bytesOfNat (nat v))) 0 @ bytesOfNat (nat v)"
    by (simp add: uint256BE_def)
  then show ?thesis
    using a by (simp add: natOfBytes_replicate0 natOfBytes_bytesOfNat uint256_def)
qed

subsection \<open>The length of a digest\<close>

lemma length_keccakRound: "length (keccakRound a rc) = 25"
  by (simp add: keccakRound_def iota_def chi_def)

lemma length_foldl_keccakRound:
  "length (foldl keccakRound a rcs) = (if rcs = [] then length a else 25)"
  by (induction rcs arbitrary: a) (simp_all add: length_keccakRound)

lemma length_keccakF: "length (keccakF a) = 25"
proof -
  have "roundConstants \<noteq> []" by (simp add: roundConstants_def)
  then show ?thesis by (simp add: keccakF_def length_foldl_keccakRound)
qed

lemma length_foldl_absorb: "length st = 25 \<Longrightarrow> length (foldl absorb st blocks) = 25"
  by (induction blocks arbitrary: st) (simp_all add: absorb_def length_keccakF)

lemma length_concat_lanes: "length (concat (map bytesOfLane st)) = 8 * length st"
  by (induction st) (simp_all add: bytesOfLane_def)

lemma length_keccak256: "length (keccak256 m) = 32"
  by (simp add: keccak256_def length_concat_lanes length_foldl_absorb)

subsection \<open>What the encoders of viem return\<close>

lemma toHex_eq:
  "toHex v = (if uint256 v then Inr (uint256BE v) else Inl IntegerOutOfRange)"
  by (auto simp: uint256_def toHex_uint256BE toHex_out_of_range)

lemma encodeNumber_eq:
  "encodeNumber v = (if uint256 v then Inr (False, uint256BE v) else Inl IntegerOutOfRange)"
  by (auto simp: encodeNumber_def toHex_eq) (auto simp: uint256_def)

lemma encodeBytes32_eq:
  "encodeBytes32 h =
     (if length h = 32 then Inr (False, h) else Inl AbiEncodingBytesSizeMismatch)"
  by (simp add: encodeBytes32_def padRight_def)

lemma encodeInit_eq:
  "encodeAbiParameters [ATuple [AUint256 x, AUint256 y], ABytes32 h] =
     (if \<not> uint256 x \<or> \<not> uint256 y then Inl IntegerOutOfRange
      else if length h \<noteq> 32 then Inl AbiEncodingBytesSizeMismatch
      else Inr (abiEncodeInit x y h))"
  by (simp add: encodeAbiParameters_def encodeNumber_eq encodeBytes32_eq encodeParams_def
      staticSizeOf_def concatHex_def abiEncodeInit_def)

lemma pad_eq:
  "pad h = (if length h \<le> 32 then Inr (replicate (32 - length h) 0 @ h)
            else Inl SizeExceedsPaddingSize)"
  by (simp add: pad_def)

lemma encodeWebAuthnPubKey_eq:
  "encodeWebAuthnPubKey k =
     (if \<not> uint256 (pubX k) \<or> \<not> uint256 (pubY k) then Inl IntegerOutOfRange
      else if 32 < length (authenticatorIdHash k) then Inl SizeExceedsPaddingSize
      else Inr (uint256BE (pubX k) @ uint256BE (pubY k) @
          replicate (32 - length (authenticatorIdHash k)) 0 @ authenticatorIdHash k))"
  by (simp add: encodeWebAuthnPubKey_def toHex_eq pad_eq concatHex_def)

subsection \<open>The signing callback without a chain\<close>

text \<open>
  C7.  When the account's client is absent or has no chain, \<open>signUserOpHash\<close> fails with
  \<open>ChainIdUnavailable\<close> and its trace is empty: no authentication ceremony and no other
  external call has been made.
\<close>

theorem signUserOpHash_no_chain:
  assumes "case client account of None \<Rightarrow> True | Some c \<Rightarrow> chain c = None"
  shows "signUserOpHash pf u key account userOpHash = ([], Inl ChainIdUnavailable)"
  using assms
  by (simp add: signUserOpHash_def throw_def split: option.splits)

theorem signUserOpHash_no_chain_witness:
  "(case client (demoAccount None) of None \<Rightarrow> True | Some c \<Rightarrow> chain c = None) \<and>
   signUserOpHash (demoPlatform True) (demoUtils [8453]) demoKey (demoAccount None) ''0x01''
     = ([], Inl ChainIdUnavailable)"
  using signUserOpHash_no_chain
    [of "demoAccount None" "demoPlatform True" "demoUtils [8453]" demoKey "''0x01''"]
  by (simp add: demoAccount_def)

subsection \<open>The shapes of the message\<close>

lemma sign_rejected_shape:
  "messageContentOf m = Inl e \<Longrightarrow>
   signMessageUsingWebAuthn pf u m cid creds = ([], Inl e)"
  by (simp add: signMessageUsingWebAuthn_def eff_simps throw_def)



text \<open>
  A value that is neither a string nor an object is not a \<open>SignableMessage\<close>, and the only
  caller passes a string.  Passed all the same, it makes the \<open>in\<close> operator throw before
  the last branch is reached.
\<close>

lemma sign_primitive:
  "signMessageUsingWebAuthn pf u MPrimitive cid creds = ([], Inl TypeError)"
  by (simp add: sign_rejected_shape)

subsection \<open>The init payload\<close>

text \<open>
  C5.  Whenever \<open>toPasskeyValidator\<close> produces a module, the bytes it passes as the top-level
  \<open>initData\<close> and as \<open>moduleInitData.initData\<close> are the same, and they are
  \<open>abi.encode((uint256 x, uint256 y), bytes32 authenticatorIdHash)\<close> of the key's \<open>pubX\<close>,
  \<open>pubY\<close> and \<open>authenticatorIdHash\<close>.
\<close>

theorem initData_identical:
  assumes "toPasskeyValidator cs key account = Inr m"
  shows "m_initData m = mi_initData (m_moduleInitData m) \<and>
         m_initData m = abiEncodeInit (pubX key) (pubY key) (authenticatorIdHash key)"
  using assms
  by (auto simp: toPasskeyValidator_def encodeInit_eq split: if_splits)

lemma toPasskeyValidator_total:
  assumes "uint256 (pubX key)" "uint256 (pubY key)" "length (authenticatorIdHash key) = 32"
  shows "\<exists>m. toPasskeyValidator cs key account = Inr m"
  using assms by (simp add: toPasskeyValidator_def encodeInit_eq)

theorem initData_identical_witness:
  "\<exists>m. toPasskeyValidator demoConstants demoKey (demoAccount (Some 8453)) = Inr m \<and>
       m_initData m = mi_initData (m_moduleInitData m) \<and>
       m_initData m = abiEncodeInit 7 (2 ^ 248) (keccak256 [1, 2, 3, 4])"
proof -
  have "\<exists>m. toPasskeyValidator demoConstants demoKey (demoAccount (Some 8453)) = Inr m"
    by (rule toPasskeyValidator_total) (simp_all add: demoKey_def uint256_def length_keccak256)
  then obtain m where
    m: "toPasskeyValidator demoConstants demoKey (demoAccount (Some 8453)) = Inr m" ..
  from initData_identical [OF m]
  have "m_initData m = mi_initData (m_moduleInitData m) \<and>
        m_initData m = abiEncodeInit 7 (2 ^ 248) (keccak256 [1, 2, 3, 4])"
    by (auto simp: demoKey_def)
  with m show ?thesis by blast
qed

subsection \<open>encodeWebAuthnPubKey\<close>

text \<open>
  C10, as amended.  For a key whose \<open>pubX\<close> and \<open>pubY\<close> are in the range of \<open>uint256\<close> and
  whose \<open>authenticatorIdHash\<close> has at most 32 bytes, \<open>encodeWebAuthnPubKey\<close> returns 96 bytes:
  \<open>pubX\<close> as 32 big-endian bytes, then \<open>pubY\<close> as 32 big-endian bytes, then the hash padded
  on the left with zero bytes to 32.  For every other key it throws.
\<close>

theorem encodeWebAuthnPubKey_layout:
  "(uint256 (pubX k) \<and> uint256 (pubY k) \<and> length (authenticatorIdHash k) \<le> 32 \<longrightarrow>
      (\<exists>out. encodeWebAuthnPubKey k = Inr out \<and> length out = 96 \<and>
         take 32 out = uint256BE (pubX k) \<and>
         int (natOfBytes (take 32 out)) = pubX k \<and>
         take 32 (drop 32 out) = uint256BE (pubY k) \<and>
         int (natOfBytes (take 32 (drop 32 out))) = pubY k \<and>
         drop 64 out =
           replicate (32 - length (authenticatorIdHash k)) 0 @ authenticatorIdHash k)) \<and>
   (\<not> (uint256 (pubX k) \<and> uint256 (pubY k) \<and> length (authenticatorIdHash k) \<le> 32) \<longrightarrow>
      (\<exists>e. encodeWebAuthnPubKey k = Inl e))"
  by (auto simp: encodeWebAuthnPubKey_eq length_uint256BE natOfBytes_uint256BE)

theorem encodeWebAuthnPubKey_layout_witness:
  "uint256 (pubX demoKey) \<and> uint256 (pubY demoKey) \<and>
   length (authenticatorIdHash demoKey) \<le> 32 \<and>
   (\<exists>out. encodeWebAuthnPubKey demoKey = Inr out \<and> length out = 96 \<and>
      int (natOfBytes (take 32 out)) = 7 \<and>
      int (natOfBytes (take 32 (drop 32 out))) = 2 ^ 248 \<and>
      drop 64 out = keccak256 [1, 2, 3, 4]) \<and>
   \<not> uint256 (pubX oversizedKey) \<and>
   (\<exists>e. encodeWebAuthnPubKey oversizedKey = Inl e)"
  using encodeWebAuthnPubKey_layout [of demoKey] encodeWebAuthnPubKey_layout [of oversizedKey]
  by (auto simp: demoKey_def oversizedKey_def uint256_def length_keccak256)

text \<open>
  The claim as stated fails on a key whose \<open>pubX\<close> is \<open>2 ^ 256\<close>, a \<open>bigint\<close> like any other:
  \<open>toHex\<close> throws and nothing is returned.
\<close>

theorem encodeWebAuthnPubKey_counterexample:
  "encodeWebAuthnPubKey oversizedKey = Inl IntegerOutOfRange"
  by (simp add: encodeWebAuthnPubKey_eq oversizedKey_def uint256_def)

subsection \<open>Runs that return\<close>

lemma andThen_Inr:
  "andThen m f = (t, Inr b) \<longleftrightarrow>
     (\<exists>t1 a t2. m = (t1, Inr a) \<and> f a = (t2, Inr b) \<and> t = t1 @ t2)"
  by (cases m; cases "snd m") (auto simp: andThen_def split: prod.splits)

lemma lift_Inr: "lift r = (t, Inr a) \<longleftrightarrow> t = [] \<and> r = Inr a"
  by (auto simp: lift_def)

lemma call_Inr: "call ev r = (t, Inr a) \<longleftrightarrow> t = [ev] \<and> r = Inr a"
  by (auto simp: call_def)

lemma ret_Inr: "ret a = (t, Inr b) \<longleftrightarrow> t = [] \<and> a = b"
  by (auto simp: ret_def)

lemma throw_Inr: "throw e = (t, Inr b) \<longleftrightarrow> False"
  by (simp add: throw_def)

lemmas eff_Inr = andThen_Inr lift_Inr call_Inr ret_Inr throw_Inr

lemma bigIntOfHex_Inr: "bigIntOfHex bs = Inr v \<longleftrightarrow> bs \<noteq> [] \<and> v = int (natOfBytes bs)"
  by (auto simp: bigIntOfHex_def)

lemma deriveKey_Inr:
  "deriveKey pf u pubKey aid = (t, Inr k) \<longleftrightarrow>
     (\<exists>idBytes spkiDer key rawKey.
        b64ToBytes u aid = Inr idBytes \<and>
        bufferFromBase64 pf pubKey = Inr spkiDer \<and>
        importKey pf spkiDer = Inr key \<and>
        exportKey pf key = Inr rawKey \<and>
        take 32 (drop 1 rawKey) \<noteq> [] \<and> drop 33 rawKey \<noteq> [] \<and>
        t = [ImportKey spkiDer, ExportKey key] \<and>
        k = \<lparr> pubX = int (natOfBytes (take 32 (drop 1 rawKey))),
              pubY = int (natOfBytes (drop 33 rawKey)),
              authenticatorId = aid,
              authenticatorIdHash = keccak256 (uint8ArrayToHexString u idBytes) \<rparr>)"
  unfolding deriveKey_def Let_def
  by (simp add: eff_Inr bigIntOfHex_Inr) blast

lemma toWebAuthnKey_derived:
  assumes "webAuthnKey p = None" and "toWebAuthnKey cs pf u p = (t, Inr k)"
  shows "\<exists>t1 t2 pubKey aid.
           (if modeOf p = Login then loginFlow cs pf p else registerFlow cs pf p)
             = (t1, Inr (pubKey, aid)) \<and>
           truthy pubKey \<and> aid \<noteq> [] \<and>
           deriveKey pf u pubKey aid = (t2, Inr k) \<and> t = t1 @ t2"
  using assms
  by (auto simp: toWebAuthnKey_def eff_Inr split: if_splits)

lemma b64_AQIDBA: "b64ToBytesSpec ''AQIDBA'' = Inr [1, 2, 3, 4]"
  by (simp add: b64ToBytesSpec_def b64Digit_def)

subsection \<open>A registration against the demo server\<close>

lemma natOfBytes_demoPointX: "natOfBytes demoPointX = 7"
  by (simp add: demoPointX_def natOfBytes_def)

lemma natOfBytes_demoPointY: "natOfBytes demoPointY = 2 ^ 248"
  by (simp add: demoPointY_def natOfBytes_def)

lemma demo_rawKey:
  "take 32 (drop (Suc 0) demoRawKey) = demoPointX"
  "drop 33 demoRawKey = demoPointY"
  "demoPointX \<noteq> []" "demoPointY \<noteq> []"
  "length demoRawKey = 65" "hd demoRawKey = 4"
  by (simp_all add: demoRawKey_def demoPointX_def demoPointY_def)

lemma demo_registerFlow:
  "registerFlow demoConstants (demoPlatform v) registerParams =
     (if v then ([Fetch demoOptionsRequest, StartRegistration demoCreationOptions,
                  Fetch demoVerifyRequest], Inr (JString ''c3BraQ'', ''AQIDBA''))
      else ([Fetch demoOptionsRequest, StartRegistration demoCreationOptions,
                  Fetch demoVerifyRequest], Inl RegistrationNotVerified))"
  by (simp add: registerFlow_def demoConstants_def demoPlatform_def registerParams_def
      demoServer_def post_def headersOf_def credentialsOf_def eff_simps throw_def ret_def
      demoOptionsRequest_def demoVerifyRequest_def demoCredential_def demoCreationOptions_def)

lemma demo_deriveKey:
  "deriveKey (demoPlatform v) (demoUtils al) (JString ''c3BraQ'') ''AQIDBA'' =
     ([ImportKey [0x30], ExportKey 0], Inr demoKey)"
  by (simp add: deriveKey_def demoPlatform_def demoUtils_def b64_AQIDBA eff_simps ret_def
      bigIntOfHex_def demoKey_def natOfBytes_demoPointX natOfBytes_demoPointY demo_rawKey)

lemma demo_registration:
  "toWebAuthnKey demoConstants (demoPlatform True) (demoUtils al) registerParams =
     ([Fetch demoOptionsRequest, StartRegistration demoCreationOptions,
       Fetch demoVerifyRequest, ImportKey [0x30], ExportKey 0], Inr demoKey)"
proof -
  have "webAuthnKey registerParams = None" "modeOf registerParams = Register"
    by (simp_all add: registerParams_def modeOf_def)
  then show ?thesis
    by (simp add: toWebAuthnKey_def demo_registerFlow demo_deriveKey andThen_def)
qed

subsection \<open>The hash of the credential id\<close>

text \<open>
  C2, as amended.  A key that the caller supplies is returned as it is, with no call and
  no check.  A key that \<open>toWebAuthnKey\<close> derives itself (no \<open>webAuthnKey\<close> supplied, register
  or login) has as \<open>authenticatorIdHash\<close> the keccak-256 digest of the bytes that \<open>b64ToBytes\<close>
  decodes from its \<open>authenticatorId\<close>; with base64url decoding, the id \<open>AQIDBA\<close> gives the
  digest of the bytes \<open>01 02 03 04\<close>.
\<close>

theorem authenticatorIdHash_derived:
  "(\<forall>k0. webAuthnKey p = Some k0 \<longrightarrow> toWebAuthnKey cs pf u p = ([], Inr k0)) \<and>
   (webAuthnKey p = None \<and> toWebAuthnKey cs pf u p = (t, Inr k) \<longrightarrow>
      (\<exists>idBytes. b64ToBytes u (authenticatorId k) = Inr idBytes \<and>
         authenticatorIdHash k = keccak256 (uint8ArrayToHexString u idBytes)) \<and>
      (b64ToBytes u = b64ToBytesSpec \<and> uint8ArrayToHexString u = (\<lambda>bs. bs) \<and>
       authenticatorId k = ''AQIDBA'' \<longrightarrow> authenticatorIdHash k = keccak256 [1, 2, 3, 4]))"
proof (intro conjI allI impI)
  fix k0 assume "webAuthnKey p = Some k0"
  then show "toWebAuthnKey cs pf u p = ([], Inr k0)"
    by (simp add: toWebAuthnKey_def ret_def)
next
  assume a: "webAuthnKey p = None \<and> toWebAuthnKey cs pf u p = (t, Inr k)"
  then obtain t2 pubKey aid where "deriveKey pf u pubKey aid = (t2, Inr k)"
    using toWebAuthnKey_derived [of p cs pf u t k] by blast
  then show "\<exists>idBytes. b64ToBytes u (authenticatorId k) = Inr idBytes \<and>
         authenticatorIdHash k = keccak256 (uint8ArrayToHexString u idBytes)"
    by (auto simp: deriveKey_Inr)
  then show "authenticatorIdHash k = keccak256 [1, 2, 3, 4]"
    if "b64ToBytes u = b64ToBytesSpec \<and> uint8ArrayToHexString u = (\<lambda>bs. bs) \<and>
        authenticatorId k = ''AQIDBA''"
    using that by (auto simp: b64_AQIDBA)
qed

theorem authenticatorIdHash_derived_witness:
  "webAuthnKey registerParams = None \<and>
   toWebAuthnKey demoConstants (demoPlatform True) (demoUtils []) registerParams =
     ([Fetch demoOptionsRequest, StartRegistration demoCreationOptions,
       Fetch demoVerifyRequest, ImportKey [0x30], ExportKey 0], Inr demoKey) \<and>
   b64ToBytes (demoUtils []) (authenticatorId demoKey) = Inr [1, 2, 3, 4] \<and>
   authenticatorId demoKey = ''AQIDBA'' \<and>
   authenticatorIdHash demoKey = keccak256 [1, 2, 3, 4] \<and>
   toWebAuthnKey demoConstants (demoPlatform True) (demoUtils [])
     (registerParams \<lparr> webAuthnKey := Some forgedKey \<rparr>) = ([], Inr forgedKey)"
  using authenticatorIdHash_derived
    [of registerParams demoConstants "demoPlatform True" "demoUtils []" _ demoKey]
    authenticatorIdHash_derived
    [of "registerParams \<lparr> webAuthnKey := Some forgedKey \<rparr>" demoConstants
        "demoPlatform True" "demoUtils []"]
    demo_registration [of "[]"]
  by (simp add: registerParams_def demoKey_def demoUtils_def b64_AQIDBA)

text \<open>
  The claim as stated fails on a key passed in by the caller: it comes back unchanged, and
  its hash is not the digest of its decoded id.
\<close>

theorem authenticatorIdHash_counterexample:
  "toWebAuthnKey demoConstants (demoPlatform True) (demoUtils [])
     (registerParams \<lparr> webAuthnKey := Some forgedKey \<rparr>) = ([], Inr forgedKey) \<and>
   b64ToBytesSpec (authenticatorId forgedKey) = Inr [1, 2, 3, 4] \<and>
   authenticatorIdHash forgedKey \<noteq> keccak256 [1, 2, 3, 4]"
proof -
  have "length (authenticatorIdHash forgedKey) \<noteq> length (keccak256 [1, 2, 3, 4])"
    by (simp add: forgedKey_def length_keccak256)
  then have "authenticatorIdHash forgedKey \<noteq> keccak256 [1, 2, 3, 4]" by auto
  then show ?thesis
    by (simp add: toWebAuthnKey_def ret_def forgedKey_def b64_AQIDBA)
qed

subsection \<open>The coordinates of the public key\<close>

text \<open>
  C4.  A key that \<open>toWebAuthnKey\<close> derives has as \<open>pubX\<close> the big-endian value of bytes 1 to 33
  of the raw export of the imported SPKI key, and as \<open>pubY\<close> the value of the bytes from 33 on.
  When the export is an uncompressed point (65 bytes, the first \<open>0x04\<close>), these are bytes 33 to
  65, and \<open>0x04\<close>, \<open>pubX\<close> and \<open>pubY\<close> as 32 big-endian bytes each give the exported point back.
  The pair depends on the public key alone: every derivation from the same key on the same
  platform yields the same pair.
\<close>

theorem publicKey_coordinates:
  assumes "webAuthnKey p = None" and "toWebAuthnKey cs pf u p = (t, Inr k)"
  shows "\<exists>t1 pubKey aid spkiDer key rawKey.
           (if modeOf p = Login then loginFlow cs pf p else registerFlow cs pf p)
             = (t1, Inr (pubKey, aid)) \<and>
           bufferFromBase64 pf pubKey = Inr spkiDer \<and>
           importKey pf spkiDer = Inr key \<and>
           exportKey pf key = Inr rawKey \<and>
           pubX k = int (natOfBytes (take 32 (drop 1 rawKey))) \<and>
           pubY k = int (natOfBytes (drop 33 rawKey)) \<and>
           (length rawKey = 65 \<and> hd rawKey = 0x04 \<longrightarrow>
              pubY k = int (natOfBytes (take 32 (drop 33 rawKey))) \<and>
              [0x04] @ uint256BE (pubX k) @ uint256BE (pubY k) = rawKey) \<and>
           (\<forall>u' aid' t' k'. deriveKey pf u' pubKey aid' = (t', Inr k') \<longrightarrow>
              pubX k' = pubX k \<and> pubY k' = pubY k)"
proof -
  from assms obtain t1 t2 pubKey aid where
    f: "(if modeOf p = Login then loginFlow cs pf p else registerFlow cs pf p)
          = (t1, Inr (pubKey, aid))"
    and d: "deriveKey pf u pubKey aid = (t2, Inr k)"
    using toWebAuthnKey_derived [of p cs pf u t k] by blast
  from d obtain spkiDer key rawKey where
    ex: "bufferFromBase64 pf pubKey = Inr spkiDer" "importKey pf spkiDer = Inr key"
        "exportKey pf key = Inr rawKey"
    and x: "pubX k = int (natOfBytes (take 32 (drop 1 rawKey)))"
    and y: "pubY k = int (natOfBytes (drop 33 rawKey))"
    by (auto simp: deriveKey_Inr)
  have same: "pubX k' = pubX k \<and> pubY k' = pubY k"
    if "deriveKey pf u' pubKey aid' = (t', Inr k')" for u' aid' t' k'
    using that ex x y by (auto simp: deriveKey_Inr)
  have round: "pubY k = int (natOfBytes (take 32 (drop 33 rawKey))) \<and>
      [0x04] @ uint256BE (pubX k) @ uint256BE (pubY k) = rawKey"
    if len: "length rawKey = 65 \<and> hd rawKey = 0x04"
  proof -
    have l1: "length (take 32 (drop 1 rawKey)) = 32" and l2: "length (drop 33 rawKey) = 32"
      using len by simp_all
    have t: "take 32 (drop 33 rawKey) = drop 33 rawKey" using len by simp
    have "drop 32 (drop 1 rawKey) = drop 33 rawKey" by simp
    then have "take 32 (drop 1 rawKey) @ drop 33 rawKey = drop 1 rawKey"
      using append_take_drop_id [of 32 "drop 1 rawKey"] by simp
    moreover have "rawKey = [0x04] @ drop 1 rawKey" using len by (cases rawKey) auto
    ultimately have "rawKey = [0x04] @ take 32 (drop 1 rawKey) @ drop 33 rawKey" by simp
    then show ?thesis
      using x y t uint256BE_natOfBytes [OF l1] uint256BE_natOfBytes [OF l2] by simp
  qed
  from f ex x y same round show ?thesis by blast
qed

theorem publicKey_coordinates_witness:
  "webAuthnKey registerParams = None \<and>
   toWebAuthnKey demoConstants (demoPlatform True) (demoUtils []) registerParams =
     ([Fetch demoOptionsRequest, StartRegistration demoCreationOptions,
       Fetch demoVerifyRequest, ImportKey [0x30], ExportKey 0], Inr demoKey) \<and>
   length demoRawKey = 65 \<and> hd demoRawKey = 0x04 \<and>
   pubX demoKey = int (natOfBytes (take 32 (drop 1 demoRawKey))) \<and>
   pubY demoKey = int (natOfBytes (take 32 (drop 33 demoRawKey))) \<and>
   [0x04] @ uint256BE (pubX demoKey) @ uint256BE (pubY demoKey) = demoRawKey"
proof -
  have n: "webAuthnKey registerParams = None" by (simp add: registerParams_def)
  note run = demo_registration [of "[]"]
  from publicKey_coordinates [OF n run]
  obtain key rawKey where
    e: "exportKey (demoPlatform True) key = Inr rawKey"
    and x: "pubX demoKey = int (natOfBytes (take 32 (drop 1 rawKey)))"
    and r: "length rawKey = 65 \<and> hd rawKey = 0x04 \<longrightarrow>
              pubY demoKey = int (natOfBytes (take 32 (drop 33 rawKey))) \<and>
              [0x04] @ uint256BE (pubX demoKey) @ uint256BE (pubY demoKey) = rawKey"
    by blast
  from e have rk: "rawKey = demoRawKey" by (simp add: demoPlatform_def)
  have len: "length demoRawKey = 65 \<and> hd demoRawKey = 0x04" by (simp add: demo_rawKey)
  from r [unfolded rk] len
  have c: "pubY demoKey = int (natOfBytes (take 32 (drop 33 demoRawKey))) \<and>
           [0x04] @ uint256BE (pubX demoKey) @ uint256BE (pubY demoKey) = demoRawKey"
    by blast
  from x [unfolded rk] c n run len show ?thesis by blast
qed

subsection \<open>A registration that is not verified\<close>

text \<open>
  C8.  In a registration (no key supplied, mode not login) whose options request and
  ceremony succeed and whose verify response has a falsy \<open>verified\<close>, \<open>toWebAuthnKey\<close> fails
  with \<open>RegistrationNotVerified\<close>.  Its trace is the two requests and the ceremony: no key
  is imported or exported, and no \<open>WebAuthnKey\<close> is returned.
\<close>

theorem registration_not_verified:
  assumes "webAuthnKey p = None" and "modeOf p \<noteq> Login"
    and "fetchJson pf (post cs p ''/register/options''
           (RegisterOptionsBody (passkeyName p) (rpID p))) = Inr registerOptions"
    and "getProp registerOptions ''options'' = Inr creationOptions"
    and "startRegistration pf creationOptions = Inr registerCred"
    and "getProp registerOptions ''userId'' = Inr userId"
    and "fetchJson pf (post cs p ''/register/verify''
           (RegisterVerifyBody userId (passkeyName p) registerCred (rpID p)))
         = Inr registerVerifyResult"
    and "getProp registerVerifyResult ''verified'' = Inr verified"
    and "\<not> truthy verified"
  shows "toWebAuthnKey cs pf u p =
           ([Fetch (post cs p ''/register/options''
                     (RegisterOptionsBody (passkeyName p) (rpID p))),
             StartRegistration creationOptions,
             Fetch (post cs p ''/register/verify''
                     (RegisterVerifyBody userId (passkeyName p) registerCred (rpID p)))],
            Inl RegistrationNotVerified) \<and>
         \<not> list_ex isDerivation (fst (toWebAuthnKey cs pf u p))"
proof -
  have "registerFlow cs pf p =
           ([Fetch (post cs p ''/register/options''
                     (RegisterOptionsBody (passkeyName p) (rpID p))),
             StartRegistration creationOptions,
             Fetch (post cs p ''/register/verify''
                     (RegisterVerifyBody userId (passkeyName p) registerCred (rpID p)))],
            Inl RegistrationNotVerified)"
    using assms(3-9) by (simp add: registerFlow_def eff_simps throw_def)
  with assms(1,2) show ?thesis
    by (simp add: toWebAuthnKey_def andThen_def isDerivation_def)
qed

theorem registration_not_verified_witness:
  "webAuthnKey registerParams = None \<and> modeOf registerParams \<noteq> Login \<and>
   fetchJson (demoPlatform False) demoVerifyRequest = Inr (JObject [(''verified'', JBool False)]) \<and>
   toWebAuthnKey demoConstants (demoPlatform False) (demoUtils []) registerParams =
     ([Fetch demoOptionsRequest, StartRegistration demoCreationOptions,
       Fetch demoVerifyRequest], Inl RegistrationNotVerified) \<and>
   \<not> list_ex isDerivation
       (fst (toWebAuthnKey demoConstants (demoPlatform False) (demoUtils []) registerParams))"
proof -
  have h1: "webAuthnKey registerParams = None" and h2: "modeOf registerParams \<noteq> Login"
    by (simp_all add: registerParams_def modeOf_def)
  have p1: "post demoConstants registerParams ''/register/options''
              (RegisterOptionsBody (passkeyName registerParams) (rpID registerParams))
            = demoOptionsRequest"
    by (simp add: registerParams_def post_def headersOf_def credentialsOf_def
        demoConstants_def demoOptionsRequest_def)
  have p2: "post demoConstants registerParams ''/register/verify''
              (RegisterVerifyBody (JString ''user-1'') (passkeyName registerParams)
                 demoCredential (rpID registerParams))
            = demoVerifyRequest"
    by (simp add: registerParams_def post_def headersOf_def credentialsOf_def
        demoConstants_def demoVerifyRequest_def)
  have h3: "fetchJson (demoPlatform False) demoOptionsRequest =
      Inr (JObject [(''options'', demoCreationOptions), (''userId'', JString ''user-1'')])"
    by (simp add: demoPlatform_def demoServer_def demoOptionsRequest_def
        demoCreationOptions_def)
  have h4: "getProp (JObject [(''options'', demoCreationOptions),
      (''userId'', JString ''user-1'')]) ''options'' = Inr demoCreationOptions"
    by simp
  have h5: "startRegistration (demoPlatform False) demoCreationOptions = Inr demoCredential"
    by (simp add: demoPlatform_def demoCredential_def)
  have h6: "getProp (JObject [(''options'', demoCreationOptions),
      (''userId'', JString ''user-1'')]) ''userId'' = Inr (JString ''user-1'')"
    by simp
  have h7: "fetchJson (demoPlatform False) demoVerifyRequest =
      Inr (JObject [(''verified'', JBool False)])"
    by (simp add: demoPlatform_def demoServer_def demoVerifyRequest_def)
  have h8: "getProp (JObject [(''verified'', JBool False)]) ''verified'' = Inr (JBool False)"
    by simp
  have h9: "\<not> truthy (JBool False)" by simp
  from registration_not_verified
    [of registerParams "demoPlatform False" demoConstants, unfolded p1,
     OF h1 h2 h3 h4 h5 h6 _ h8 h9, unfolded p2, OF h7, of "demoUtils []"]
    h1 h2 h7
  show ?thesis by blast
qed

subsection \<open>The encoded signature\<close>

lemma encodeBool_eq: "encodeBool b = Inr (False, abiBool b)"
  by (simp add: encodeBool_def pad_def abiBool_def)

lemma encodeBytes_Inr: "encodeBytes v = Inr p \<Longrightarrow> fst p"
  by (auto simp: encodeBytes_def split: sum.splits)

lemma encodeString_Inr: "encodeString v = Inr p \<Longrightarrow> fst p"
  by (auto simp: encodeString_def Let_def split: sum.splits)

lemma length_abiBool: "length (abiBool b) = 32"
  by (simp add: abiBool_def)

lemma encode_signature_head:
  assumes "encodeAbiParameters
             [ABytes a, AString c, AUint256 loc, AUint256 r, AUint256 s, ABool b] = Inr sig"
  shows "\<exists>o1 o2 ea ec. length o1 = 32 \<and> length o2 = 32 \<and>
           sig = o1 @ o2 @ uint256BE loc @ uint256BE r @ uint256BE s @ abiBool b @ ea @ ec"
proof -
  from assms obtain pa pc where
    pa: "encodeBytes a = Inr pa" and pc: "encodeString c = Inr pc"
    and e: "encodeParams [pa, pc, (False, uint256BE loc), (False, uint256BE r),
              (False, uint256BE s), (False, abiBool b)] = Inr sig"
    by (auto simp: encodeAbiParameters_def encodeNumber_eq encodeBool_eq
        split: sum.splits if_splits)
  obtain ea ec where pa': "pa = (True, ea)" and pc': "pc = (True, ec)"
    using encodeBytes_Inr [OF pa] encodeString_Inr [OF pc] by (cases pa; cases pc) auto
  from e obtain o1 o2 where
    o: "toHex (int (192 + 0)) = Inr o1" "toHex (int (192 + (0 + length ea))) = Inr o2"
    and sig: "sig = o1 @ o2 @ uint256BE loc @ uint256BE r @ uint256BE s @ abiBool b @ ea @ ec"
    unfolding pa' pc'
    by (auto simp: encodeParams_def staticSizeOf_def length_uint256BE length_abiBool
        concatHex_def split: sum.splits)
  have "length o1 = 32" "length o2 = 32" using o by (auto dest: toHex_length)
  with sig show ?thesis by blast
qed

lemma encode_signature_word3:
  assumes "encodeAbiParameters
             [ABytes a, AString c, AUint256 loc, AUint256 r, AUint256 s, ABool b] = Inr sig"
  shows "take 32 (drop 64 sig) = uint256BE loc"
  using encode_signature_head [OF assms] by (auto simp: length_uint256BE)

lemma encode_signature_word6:
  assumes "encodeAbiParameters
             [ABytes a, AString c, AUint256 loc, AUint256 r, AUint256 s, ABool b] = Inr sig"
  shows "take 32 (drop 160 sig) = abiBool b"
  using encode_signature_head [OF assms] by (auto simp: length_uint256BE length_abiBool)

lemma sign_Inr:
  "signMessageUsingWebAuthn pf u m cid creds = (t, Inr sig) \<Longrightarrow>
   \<exists>a c loc r s. encodeAbiParameters
      [ABytes a, AString c, AUint256 loc, AUint256 r, AUint256 s,
       ABool (isRIP7212SupportedNetwork u cid)] = Inr sig"
  unfolding signMessageUsingWebAuthn_def Let_def
  by (auto simp: eff_Inr split: prod.splits) blast

lemma length_stringToHex: "length (stringToHex s) \<le> 2 * length s"
  by (induction s) (simp_all add: stringToHex_def Let_def)

lemma encode_signature_total:
  assumes "uint256 loc" "uint256 r" "uint256 s"
    and "length a < 2 ^ 64" and "length c < 2 ^ 64"
  shows "\<exists>sig. encodeAbiParameters
           [ABytes a, AString c, AUint256 loc, AUint256 r, AUint256 s, ABool b] = Inr sig"
proof -
  have la: "uint256 (int (length a))" using assms(4) by (simp add: uint256_def)
  have "length (stringToHex c) < 2 ^ 65"
    using length_stringToHex [of c] assms(5) by simp
  then have lc: "uint256 (int (length (stringToHex c)))"
    by (simp add: uint256_def)
  have "length (padToWords a) \<le> length a + 32"
    by (simp add: padToWords_def)
  then have "length (padToWords a) < 2 ^ 65"
    using assms(4) by simp
  then have o2: "uint256 (int (192 + (32 + length (padToWords a))))"
    by (simp add: uint256_def)
  have o1: "uint256 192" by (simp add: uint256_def)
  show ?thesis
    using la lc o1 o2 assms(1-3)
    by (simp add: encodeAbiParameters_def encodeNumber_eq encodeBool_eq encodeBytes_def
        encodeString_def toHex_eq encodeParams_def staticSizeOf_def length_uint256BE
        length_abiBool concatHex_def Let_def)
qed

lemma b64_AQID: "b64ToBytesSpec ''AQID'' = Inr [1, 2, 3]"
  by (simp add: b64ToBytesSpec_def b64Digit_def)

lemma b64_signature:
  "b64ToBytesSpec ''MAYCAQUCAQc'' = Inr [0x30, 0x06, 0x02, 0x01, 0x05, 0x02, 0x01, 0x07]"
  by (simp add: b64ToBytesSpec_def b64Digit_def)

lemma parse_demo_signature:
  "parseAndNormalizeSigSpec [0x30, 0x06, 0x02, 0x01, 0x05, 0x02, 0x01, 0x07] = Inr (5, 7)"
  by (simp add: parseAndNormalizeSigSpec_def natOfBytes_def curveOrder_def)

lemma demo_sign:
  "signUserOpHash (demoPlatform True) (demoUtils al) demoKey (demoAccount (Some cid)) ''0x01'' =
     ([StartAuthentication (assertionOptionsOf ''AA'' (Some [''AQIDBA'']))],
      encodeAbiParameters
        [ABytes [1, 2, 3], AString demoClientData, AUint256 1, AUint256 5, AUint256 7,
         ABool (cid \<in> set al)])"
  by (simp add: signUserOpHash_def demoAccount_def signMessageUsingWebAuthn_def
      demoPlatform_def demoUtils_def demoKey_def andThen_def lift_def call_def b64_AQID
      b64_signature
      parse_demo_signature isRIP7212SupportedNetworkSpec_def)

lemma demo_sign_returns:
  "\<exists>sig. signUserOpHash (demoPlatform True) (demoUtils al) demoKey (demoAccount (Some cid))
            ''0x01''
         = ([StartAuthentication (assertionOptionsOf ''AA'' (Some [''AQIDBA'']))], Inr sig)"
proof -
  have "\<exists>sig. encodeAbiParameters
        [ABytes [1, 2, 3], AString demoClientData, AUint256 1, AUint256 5, AUint256 7,
         ABool (cid \<in> set al)] = Inr sig"
    by (rule encode_signature_total) (simp_all add: uint256_def demoClientData_def)
  then show ?thesis by (auto simp: demo_sign)
qed

subsection \<open>The precompile flag\<close>

text \<open>
  C6.  When the helper \<open>isRIP7212SupportedNetwork\<close> is membership in the allow-list, the
  \<open>usePrecompiled\<close> word of every signature that the signing callback returns is the ABI's
  \<open>true\<close> if the chain id of the account's client is in the list, and the ABI's \<open>false\<close> if it is
  not.
\<close>

theorem usePrecompiled_allow_list:
  assumes "isRIP7212SupportedNetwork u = isRIP7212SupportedNetworkSpec allowList"
    and "client account = Some c" and "chain c = Some ch"
    and "signUserOpHash pf u key account userOpHash = (t, Inr sig)"
  shows "usePrecompiledWord sig = abiBool (chainId ch \<in> set allowList)"
proof -
  from assms(2-4) have "signMessageUsingWebAuthn pf u (MString userOpHash) (chainId ch)
      (Some [authenticatorId key]) = (t, Inr sig)"
    by (simp add: signUserOpHash_def)
  from sign_Inr [OF this] obtain a c' loc r s where
    "encodeAbiParameters [ABytes a, AString c', AUint256 loc, AUint256 r, AUint256 s,
       ABool (isRIP7212SupportedNetwork u (chainId ch))] = Inr sig" by blast
  from encode_signature_word6 [OF this] show ?thesis
    by (simp add: usePrecompiledWord_def assms(1) isRIP7212SupportedNetworkSpec_def)
qed

theorem usePrecompiled_allow_list_witness:
  "\<exists>t sig t' sig'.
     signUserOpHash (demoPlatform True) (demoUtils [8453]) demoKey (demoAccount (Some 8453))
       ''0x01'' = (t, Inr sig) \<and>
     usePrecompiledWord sig = abiBool True \<and>
     signUserOpHash (demoPlatform True) (demoUtils [8453]) demoKey (demoAccount (Some 1))
       ''0x01'' = (t', Inr sig') \<and>
     usePrecompiledWord sig' = abiBool False"
proof -
  have u: "isRIP7212SupportedNetwork (demoUtils [8453]) = isRIP7212SupportedNetworkSpec [8453]"
    by (simp add: demoUtils_def)
  have c: "client (demoAccount (Some i)) = Some \<lparr> chain = Some \<lparr> chainId = i \<rparr> \<rparr>" for i
    by (simp add: demoAccount_def)
  have ch: "chain \<lparr> chain = Some \<lparr> chainId = i \<rparr> \<rparr> = Some \<lparr> chainId = i \<rparr>" for i :: int
    by simp
  obtain t sig where r1:
    "signUserOpHash (demoPlatform True) (demoUtils [8453]) demoKey (demoAccount (Some 8453))
       ''0x01'' = (t, Inr sig)"
    using demo_sign_returns [of "[8453]" 8453] by blast
  obtain t' sig' where r2:
    "signUserOpHash (demoPlatform True) (demoUtils [8453]) demoKey (demoAccount (Some 1))
       ''0x01'' = (t', Inr sig')"
    using demo_sign_returns [of "[8453]" 1] by blast
  from usePrecompiled_allow_list [OF u c ch r1]
  have w1: "usePrecompiledWord sig = abiBool True" by simp
  from usePrecompiled_allow_list [OF u c ch r2]
  have w2: "usePrecompiledWord sig' = abiBool False" by simp
  from r1 r2 w1 w2 show ?thesis by blast
qed

subsection \<open>Low s\<close>

text \<open>
  C1.  For a DER signature that parses to \<open>(r, s)\<close>, the normalizer returns \<open>r\<close> with \<open>s\<close>
  unchanged when \<open>s \<le> curveOrder / 2\<close> and with \<open>curveOrder - s\<close> when \<open>s > curveOrder / 2\<close>;
  the returned \<open>s\<close> is at most \<open>curveOrder / 2\<close>.
\<close>

theorem parseAndNormalizeSig_low_s:
  assumes "parseDer derSig = Inr (r, s)"
  shows "\<exists>s'. parseAndNormalizeSigSpec derSig = Inr (r, s') \<and>
              s' = (if s \<le> curveOrder div 2 then s else curveOrder - s) \<and>
              s' \<le> curveOrder div 2"
proof -
  have "curveOrder - s \<le> curveOrder div 2" if "curveOrder div 2 < s"
    using that by (simp add: curveOrder_def)
  then show ?thesis
    using assms by (auto simp: parseAndNormalizeSigSpec_def)
qed

lemma parseDer_low: "parseDer lowSSignature = Inr (5, 7)"
  by (simp add: lowSSignature_def natOfBytes_def)

lemma parseDer_high: "parseDer highSSignature = Inr (5, curveOrder - 1)"
  by (simp add: highSSignature_def natOfBytes_def curveOrder_def)

theorem parseAndNormalizeSig_low_s_witness:
  "parseDer lowSSignature = Inr (5, 7) \<and>
   parseAndNormalizeSigSpec lowSSignature = Inr (5, 7) \<and>
   parseDer highSSignature = Inr (5, curveOrder - 1) \<and>
   parseAndNormalizeSigSpec highSSignature = Inr (5, 1) \<and>
   1 \<le> curveOrder div 2"
  using parseAndNormalizeSig_low_s [OF parseDer_low] parseAndNormalizeSig_low_s [OF parseDer_high]
    parseDer_low parseDer_high
  by (auto simp: curveOrder_def)

subsection \<open>The stub signature\<close>

text \<open>
  The client data of the stub signature begins with the type key, and the location the stub
  carries, 1, is the offset of the opening quote of that key.
\<close>

lemma stub_responseTypeLocation:
  "take 21 (drop 1 stubClientDataJSON) =
     [dq] @ ''type'' @ [dq] @ '':'' @ [dq] @ ''webauthn.get'' @ [dq]"
  by (simp add: stubClientDataJSON_def)

lemma length_stubClientDataJSON: "length stubClientDataJSON < 2 ^ 64"
  by (simp add: stubClientDataJSON_def)

text \<open>
  The stub is a well-formed encoding; its third word is the location 1 and its sixth word is
  \<open>false\<close>.
\<close>

lemma stub_signature:
  "\<exists>sig. getStubSignature = Inr sig \<and>
         take 32 (drop 64 sig) = uint256BE 1 \<and>
         usePrecompiledWord sig = abiBool False"
proof -
  have "\<exists>sig. getStubSignature = Inr sig"
    unfolding getStubSignature_def
    using length_stubClientDataJSON
    by (intro encode_signature_total) (simp_all add: uint256_def stubAuthenticatorData_def)
  then obtain sig where s: "getStubSignature = Inr sig" ..
  from s encode_signature_word3 [of stubAuthenticatorData stubClientDataJSON 1 _ _ False sig]
    encode_signature_word6 [of stubAuthenticatorData stubClientDataJSON 1 _ _ False sig]
  show ?thesis
    by (simp add: getStubSignature_def usePrecompiledWord_def)
qed

end
